theory Spec2Isabelle
  imports Main
begin

section \<open>Values, declared types and errors\<close>

text \<open>
  Decoded JSON, as \<open>resp.json()\<close> returns it and as the \<open>json=\<close> argument of a request
  takes it. A Python dict keeps its insertion order, so an object is an association list.
  The capabilities never inspect a number, so floating-point numbers are left out.
\<close>

datatype json =
    JNull
  | JBool bool
  | JInt int
  | JStr string
  | JArr "json list"
  | JObj "(string \<times> json) list"

text \<open>
  What \<open>flatten_model\<close> can be handed: the four builtin classes, \<open>typing.List[T]\<close>
  (an object whose \<open>__dict__\<close> has \<open>_name == "List"\<close> and whose \<open>__args__[0]\<close> is \<open>T\<close>),
  a pydantic model class (an instance of \<open>ModelMetaclass\<close>) or a dataclass, each with the
  items of its \<open>__annotations__\<close> in declaration order, and any other object, kept by the
  text that \<open>str\<close> gives for it.
\<close>

datatype pytype =
    PyStr
  | PyBool
  | PyFloat
  | PyInt
  | TypingList pytype
  | ModelClass string "(string \<times> pytype) list"
  | DataClass string "(string \<times> pytype) list"
  | OtherType string

text \<open>
  The value given as \<open>input\<close> to the structured capability: a dataclass instance or a
  pydantic model instance, each with the dict that \<open>dataclasses.asdict\<close> or \<open>.dict()\<close>
  makes of it, or an object that has no \<open>dict\<close> method.
\<close>

datatype pyobject =
    DataclassObj string json
  | ModelObj string json
  | OtherObj string

text \<open>What an entry point returns: decoded JSON, text, or a typed instance.\<close>

datatype pyval =
    Json json
  | Text string
  | Instance string json

text \<open>
  Every exception of the source is a value. \<open>PyException\<close> is a plain \<open>Exception\<close> with
  its message; \<open>TransportError\<close> is what \<open>requests.post\<close> or \<open>session.post\<close> raises when
  the request fails; \<open>DecodeError\<close> is what \<open>resp.json()\<close> or \<open>.decode("utf-8")\<close> raises
  on a body it cannot decode; \<open>SessionClosed\<close> is the \<open>RuntimeError\<close> of a post on a
  closed \<open>ClientSession\<close>; \<open>LibraryError\<close> is raised inside pydantic, dacite or
  readability.
\<close>

datatype error =
    PyException string
  | TransportError
  | DecodeError
  | SessionClosed
  | KeyError string
  | TypeError string
  | AttributeError string
  | LibraryError string

section \<open>The world: network, clock, sessions, console\<close>

record request =
  req_url :: string
  req_headers :: "(string \<times> string) list"
  req_json :: json

record response =
  json_body :: "json option"
  content :: "string option"

datatype reply = NetworkError | Response response

text \<open>
  \<open>Post s r\<close>: request \<open>r\<close> reached the network, through \<open>requests.post\<close> (\<open>s = None\<close>)
  or through session \<open>s\<close>. \<open>PostRefused sid r\<close>: \<open>session.post\<close> was called on the closed
  session \<open>sid\<close> and raised before any input or output.
\<close>

datatype event =
    Post "nat option" request
  | PostRefused nat request
  | Sleep nat
  | SessionOpen nat
  | SessionClose nat

record world =
  trace :: "event list"
  stdout :: "string list"
  next_session :: nat

text \<open>
  What the code reads from outside: the configured key, the text of the environment
  variable \<open>BROWSERLESS_API_KEY\<close>, the answer of the network to the \<open>n\<close>-th request that
  reaches it, and the library functions \<open>parse_obj\<close> (pydantic), \<open>from_dict\<close> (dacite),
  \<open>Document(html).content()\<close> and \<open>Document(html).summary()\<close> (readability).
\<close>

record env =
  api_key :: string
  browserless_api_key :: string
  net :: "nat \<Rightarrow> request \<Rightarrow> reply"
  parse_obj :: "pytype \<Rightarrow> json \<Rightarrow> error + pyval"
  from_dict :: "pytype \<Rightarrow> json \<Rightarrow> error + pyval"
  document_content :: "string \<Rightarrow> error + string"
  document_summary :: "string \<Rightarrow> error + string"

definition emit :: "event \<Rightarrow> world \<Rightarrow> world" where
  "emit e w = w\<lparr>trace := trace w @ [e]\<rparr>"

definition print :: "string \<Rightarrow> world \<Rightarrow> world" where
  "print s w = w\<lparr>stdout := stdout w @ [s]\<rparr>"

fun is_Post :: "event \<Rightarrow> bool" where
  "is_Post (Post s r) = True"
| "is_Post (PostRefused sid r) = False"
| "is_Post (Sleep d) = False"
| "is_Post (SessionOpen sid) = False"
| "is_Post (SessionClose sid) = False"

definition requests_sent :: "world \<Rightarrow> nat" where
  "requests_sent w = length (filter is_Post (trace w))"

definition session_closed :: "world \<Rightarrow> nat \<Rightarrow> bool" where
  "session_closed w sid = (SessionClose sid \<in> set (trace w))"

definition deliver :: "env \<Rightarrow> nat option \<Rightarrow> request \<Rightarrow> world \<Rightarrow> (error + response) \<times> world" where
  "deliver env s r w =
     (case net env (requests_sent w) r of
        NetworkError \<Rightarrow> (Inl TransportError, emit (Post s r) w)
      | Response b \<Rightarrow> (Inr b, emit (Post s r) w))"

definition requests_post :: "env \<Rightarrow> request \<Rightarrow> world \<Rightarrow> (error + response) \<times> world" where
  "requests_post env r w = deliver env None r w"

definition session_post :: "env \<Rightarrow> nat \<Rightarrow> request \<Rightarrow> world \<Rightarrow> (error + response) \<times> world" where
  "session_post env sid r w =
     (if session_closed w sid then (Inl SessionClosed, emit (PostRefused sid r) w)
      else deliver env (Some sid) r w)"

definition resp_json :: "response \<Rightarrow> error + json" where
  "resp_json b = (case json_body b of None \<Rightarrow> Inl DecodeError | Some j \<Rightarrow> Inr j)"

definition decode_utf8 :: "response \<Rightarrow> error + string" where
  "decode_utf8 b = (case content b of None \<Rightarrow> Inl DecodeError | Some s \<Rightarrow> Inr s)"

definition ClientSession :: "world \<Rightarrow> nat \<times> world" where
  "ClientSession w =
     (next_session w, emit (SessionOpen (next_session w)) (w\<lparr>next_session := next_session w + 1\<rparr>))"

definition session_close :: "nat \<Rightarrow> world \<Rightarrow> world" where
  "session_close sid w = emit (SessionClose sid) w"

text \<open>
  \<open>async with aiohttp.ClientSession(...) as session: body\<close>: the session is closed when
  the block is left, by a return or by an exception.
\<close>

definition with_ClientSession :: "(nat \<Rightarrow> world \<Rightarrow> 'a \<times> world) \<Rightarrow> world \<Rightarrow> 'a \<times> world" where
  "with_ClientSession body w =
     (case ClientSession w of
        (sid, w1) \<Rightarrow> (case body sid w1 of (r, w2) \<Rightarrow> (r, session_close sid w2)))"

definition time_sleep :: "nat \<Rightarrow> world \<Rightarrow> world" where
  "time_sleep d w = emit (Sleep d) w"

function show_nat :: "nat \<Rightarrow> string" where
  "show_nat n =
     (if n < 10 then [char_of (48 + n)]
      else show_nat (n div 10) @ [char_of (48 + n mod 10)])"
  by pat_completeness auto
termination
  by (relation "measure (\<lambda>n. n)") auto

declare show_nat.simps [simp del]

section \<open>The retry loop\<close>

definition patience :: nat where
  "patience = 8"

text \<open>
  The \<open>except:\<close> block without its \<open>count += 1\<close>. \<open>sleep_duration = 2.0**count\<close> is a
  float; for \<open>count < 8\<close> it is the exact integer \<open>2 ^ count\<close>, printed with two decimals.
\<close>

definition backoff :: "nat \<Rightarrow> world \<Rightarrow> world" where
  "backoff count w =
     time_sleep (2 ^ count)
       (print (''retrying after sleeping for '' @ show_nat (2 ^ count) @ ''.00'') w)"

definition exhausted :: "string \<Rightarrow> error" where
  "exhausted name = PyException (''['' @ name @ ''] failed after hitting max retries'')"

definition running_msg :: "string \<Rightarrow> string \<Rightarrow> string" where
  "running_msg name document =
     ''['' @ name @ ''] running query against document with ''
       @ show_nat (length document) @ '' characters''"

text \<open>
  The loop that \<open>DocumentQA\<close> and \<open>Summarize\<close> each write out twice, with the \<open>try:\<close>
  block and the name in the final message as parameters.
\<close>

function retry_loop ::
  "string \<Rightarrow> (world \<Rightarrow> (error + 'a) \<times> world) \<Rightarrow> nat \<Rightarrow> world \<Rightarrow> (error + 'a) \<times> world" where
  "retry_loop name attempt count w =
     (if count < patience then
        (case attempt w of
           (Inr r, w1) \<Rightarrow> (Inr r, w1)
         | (Inl e, w1) \<Rightarrow> retry_loop name attempt (count + 1) (backoff count w1))
      else (Inl (exhausted name), w))"
  by pat_completeness auto
termination
  by (relation "measure (\<lambda>(name, attempt, count, w). patience - count)") auto

declare retry_loop.simps [simp del]

section \<open>DocumentQA\<close>

definition DocumentQA_request :: "env \<Rightarrow> string \<Rightarrow> string \<Rightarrow> request" where
  "DocumentQA_request env document query =
     \<lparr>req_url = ''https://api.multi.dev/documentqa'',
      req_headers = [(''Content-type'', ''application/json''), (''api-key'', api_key env)],
      req_json = JObj [(''document'', JStr document), (''query'', JStr query)]\<rparr>"

definition DocumentQA_call_try :: "env \<Rightarrow> string \<Rightarrow> string \<Rightarrow> world \<Rightarrow> (error + json) \<times> world" where
  "DocumentQA_call_try env document query w =
     (case requests_post env (DocumentQA_request env document query) w of
        (Inl e, w1) \<Rightarrow> (Inl e, w1)
      | (Inr resp, w1) \<Rightarrow> (resp_json resp, w1))"

function DocumentQA_call_loop ::
  "env \<Rightarrow> string \<Rightarrow> string \<Rightarrow> nat \<Rightarrow> world \<Rightarrow> (error + json) \<times> world" where
  "DocumentQA_call_loop env document query count w =
     (if count < patience then
        (case DocumentQA_call_try env document query w of
           (Inr j, w1) \<Rightarrow> (Inr j, w1)
         | (Inl e, w1) \<Rightarrow>
             DocumentQA_call_loop env document query (count + 1) (backoff count w1))
      else (Inl (PyException ''[DocumentQA] failed after hitting max retries''), w))"
  by pat_completeness auto
termination
  by (relation "measure (\<lambda>(env, document, query, count, w). patience - count)") auto

declare DocumentQA_call_loop.simps [simp del]

definition DocumentQA_call :: "env \<Rightarrow> string \<Rightarrow> string \<Rightarrow> world \<Rightarrow> (error + json) \<times> world" where
  "DocumentQA_call env document query w =
     DocumentQA_call_loop env document query 0 (print (running_msg ''DocumentQA'' document) w)"

definition DocumentQA_async_try ::
  "env \<Rightarrow> string \<Rightarrow> string \<Rightarrow> nat \<Rightarrow> world \<Rightarrow> (error + json) \<times> world" where
  "DocumentQA_async_try env document query sid w =
     (case session_post env sid (DocumentQA_request env document query) w of
        (Inl e, w1) \<Rightarrow> (Inl e, w1)
      | (Inr resp, w1) \<Rightarrow> (resp_json resp, w1))"

text \<open>
  The loop of \<open>run_async\<close>, from the values of its locals \<open>session\<close> and \<open>count\<close>. With
  \<open>session is None\<close> the \<open>async with ... as session\<close> binds the local to the new session and
  awaits \<open>self.run_async\<close> with it (which prints and starts at \<open>count = 0\<close>); the block closes
  the session when it is left; an exception leaving it is caught by the bare \<open>except:\<close> of
  this loop, which goes on with the local still bound to that session.
\<close>

function DocumentQA_async_loop ::
  "env \<Rightarrow> string \<Rightarrow> string \<Rightarrow> nat option \<Rightarrow> nat \<Rightarrow> world \<Rightarrow> (error + json) \<times> world" where
  "DocumentQA_async_loop env document query session count w =
     (if count < patience then
        (case session of
           None \<Rightarrow>
             (case ClientSession w of
                (sid, w1) \<Rightarrow>
                  (case DocumentQA_async_loop env document query (Some sid) 0
                          (print (running_msg ''DocumentQA'' document) w1) of
                     (Inr j, w2) \<Rightarrow> (Inr j, session_close sid w2)
                   | (Inl e, w2) \<Rightarrow>
                       DocumentQA_async_loop env document query (Some sid) (count + 1)
                         (backoff count (session_close sid w2))))
         | Some sid \<Rightarrow>
             (case DocumentQA_async_try env document query sid w of
                (Inr j, w1) \<Rightarrow> (Inr j, w1)
              | (Inl e, w1) \<Rightarrow>
                  DocumentQA_async_loop env document query (Some sid) (count + 1)
                    (backoff count w1)))
      else (Inl (PyException ''[DocumentQA] failed after hitting max retries''), w))"
  by pat_completeness auto
termination
  by (relation "measures
        [\<lambda>(env, document, query, session, count, w). if session = None then 1 else 0,
         \<lambda>(env, document, query, session, count, w). patience - count]") auto

declare DocumentQA_async_loop.simps [simp del]

definition DocumentQA_run_async ::
  "env \<Rightarrow> string \<Rightarrow> string \<Rightarrow> nat option \<Rightarrow> world \<Rightarrow> (error + json) \<times> world" where
  "DocumentQA_run_async env document query session w =
     DocumentQA_async_loop env document query session 0
       (print (running_msg ''DocumentQA'' document) w)"

section \<open>Summarize\<close>

definition Summarize_request :: "env \<Rightarrow> string \<Rightarrow> request" where
  "Summarize_request env document =
     \<lparr>req_url = ''https://api.multi.dev/summarize'',
      req_headers = [(''Content-type'', ''application/json''), (''api-key'', api_key env)],
      req_json = JObj [(''document'', JStr document)]\<rparr>"

definition Summarize_call_try :: "env \<Rightarrow> string \<Rightarrow> world \<Rightarrow> (error + json) \<times> world" where
  "Summarize_call_try env document w =
     (case requests_post env (Summarize_request env document)
             (print (running_msg ''Summarize'' document) w) of
        (Inl e, w1) \<Rightarrow> (Inl e, w1)
      | (Inr resp, w1) \<Rightarrow> (resp_json resp, w1))"

function Summarize_call_loop :: "env \<Rightarrow> string \<Rightarrow> nat \<Rightarrow> world \<Rightarrow> (error + json) \<times> world" where
  "Summarize_call_loop env document count w =
     (if count < patience then
        (case Summarize_call_try env document w of
           (Inr j, w1) \<Rightarrow> (Inr j, w1)
         | (Inl e, w1) \<Rightarrow> Summarize_call_loop env document (count + 1) (backoff count w1))
      else (Inl (PyException ''[Summarize] failed after hitting max retries''), w))"
  by pat_completeness auto
termination
  by (relation "measure (\<lambda>(env, document, count, w). patience - count)") auto

declare Summarize_call_loop.simps [simp del]

definition Summarize_call :: "env \<Rightarrow> string \<Rightarrow> world \<Rightarrow> (error + json) \<times> world" where
  "Summarize_call env document w = Summarize_call_loop env document 0 w"

definition Summarize_async_try :: "env \<Rightarrow> string \<Rightarrow> nat \<Rightarrow> world \<Rightarrow> (error + json) \<times> world" where
  "Summarize_async_try env document sid w =
     (case session_post env sid (Summarize_request env document)
             (print (running_msg ''Summarize'' document) w) of
        (Inl e, w1) \<Rightarrow> (Inl e, w1)
      | (Inr resp, w1) \<Rightarrow> (resp_json resp, w1))"

function Summarize_async_loop ::
  "env \<Rightarrow> string \<Rightarrow> nat option \<Rightarrow> nat \<Rightarrow> world \<Rightarrow> (error + json) \<times> world" where
  "Summarize_async_loop env document session count w =
     (if count < patience then
        (case session of
           None \<Rightarrow>
             (case ClientSession w of
                (sid, w1) \<Rightarrow>
                  (case Summarize_async_loop env document (Some sid) 0 w1 of
                     (Inr j, w2) \<Rightarrow> (Inr j, session_close sid w2)
                   | (Inl e, w2) \<Rightarrow>
                       Summarize_async_loop env document (Some sid) (count + 1)
                         (backoff count (session_close sid w2))))
         | Some sid \<Rightarrow>
             (case Summarize_async_try env document sid w of
                (Inr j, w1) \<Rightarrow> (Inr j, w1)
              | (Inl e, w1) \<Rightarrow>
                  Summarize_async_loop env document (Some sid) (count + 1) (backoff count w1)))
      else (Inl (PyException ''[Summarize] failed after hitting max retries''), w))"
  by pat_completeness auto
termination
  by (relation "measures
        [\<lambda>(env, document, session, count, w). if session = None then 1 else 0,
         \<lambda>(env, document, session, count, w). patience - count]") auto

declare Summarize_async_loop.simps [simp del]

definition Summarize_run_async ::
  "env \<Rightarrow> string \<Rightarrow> nat option \<Rightarrow> world \<Rightarrow> (error + json) \<times> world" where
  "Summarize_run_async env document session w = Summarize_async_loop env document session 0 w"

section \<open>Sql and Search\<close>

text \<open>
  \<open>Sql\<close>, \<open>Search\<close> and \<open>Structured\<close> are dataclasses with the same two fields,
  \<open>headers\<close> and \<open>url\<close>; the defaults are the values the registry's instances have.
\<close>

record http_capability =
  headers :: "(string \<times> string) list"
  url :: string

definition default_headers :: "env \<Rightarrow> (string \<times> string) list" where
  "default_headers env = [(''Content-type'', ''application/json''), (''api-key'', api_key env)]"

definition Sql_default :: "env \<Rightarrow> http_capability" where
  "Sql_default env = \<lparr>headers = default_headers env, url = ''https://api.multi.dev/sql''\<rparr>"

definition Search_default :: "env \<Rightarrow> http_capability" where
  "Search_default env = \<lparr>headers = default_headers env, url = ''https://api.multi.dev/search''\<rparr>"

definition Structured_default :: "env \<Rightarrow> http_capability" where
  "Structured_default env =
     \<lparr>headers = default_headers env, url = ''https://api.multi.dev/structured''\<rparr>"

text \<open>\<open>sql_variant: Optional[str] = "vanilla"\<close>: \<open>None\<close> is sent as JSON null.\<close>

definition sql_variant_default :: "string option" where
  "sql_variant_default = Some ''vanilla''"

definition optional_str :: "string option \<Rightarrow> json" where
  "optional_str v = (case v of None \<Rightarrow> JNull | Some s \<Rightarrow> JStr s)"

definition Sql_payload :: "string \<Rightarrow> string \<Rightarrow> string option \<Rightarrow> json" where
  "Sql_payload query sql_schema sql_variant =
     JObj [(''query'', JStr query), (''sql_schema'', JStr sql_schema),
           (''sql_type'', optional_str sql_variant)]"

definition Sql_call ::
  "http_capability \<Rightarrow> env \<Rightarrow> string \<Rightarrow> string \<Rightarrow> string option \<Rightarrow> world
     \<Rightarrow> (error + json) \<times> world" where
  "Sql_call self env query sql_schema sql_variant w =
     (case requests_post env
             \<lparr>req_url = url self, req_headers = headers self,
              req_json = Sql_payload query sql_schema sql_variant\<rparr> w of
        (Inl e, w1) \<Rightarrow> (Inl e, w1)
      | (Inr r, w1) \<Rightarrow> (resp_json r, w1))"

definition Sql_run_async ::
  "http_capability \<Rightarrow> env \<Rightarrow> string \<Rightarrow> string \<Rightarrow> string option \<Rightarrow> nat option \<Rightarrow> world
     \<Rightarrow> (error + json) \<times> world" where
  "Sql_run_async self env query sql_schema sql_variant session w =
     (case session of
        None \<Rightarrow>
          with_ClientSession
            (\<lambda>sid w1.
               case session_post env sid
                      \<lparr>req_url = url self, req_headers = headers self,
                       req_json = Sql_payload query sql_schema sql_variant\<rparr> w1 of
                 (Inl e, w2) \<Rightarrow> (Inl e, w2)
               | (Inr resp, w2) \<Rightarrow> (resp_json resp, w2)) w
      | Some sid \<Rightarrow>
          (case session_post env sid
                  \<lparr>req_url = url self, req_headers = headers self,
                   req_json = JObj [(''query'', JStr query)]\<rparr> w of
             (Inl e, w1) \<Rightarrow> (Inl e, w1)
           | (Inr resp, w1) \<Rightarrow> (resp_json resp, w1)))"

definition Search_call ::
  "http_capability \<Rightarrow> env \<Rightarrow> string \<Rightarrow> world \<Rightarrow> (error + json) \<times> world" where
  "Search_call self env query w =
     (case requests_post env
             \<lparr>req_url = url self, req_headers = headers self,
              req_json = JObj [(''query'', JStr query)]\<rparr> w of
        (Inl e, w1) \<Rightarrow> (Inl e, w1)
      | (Inr r, w1) \<Rightarrow> (resp_json r, w1))"

definition Search_run_async ::
  "http_capability \<Rightarrow> env \<Rightarrow> string \<Rightarrow> nat option \<Rightarrow> world \<Rightarrow> (error + json) \<times> world" where
  "Search_run_async self env query session w =
     (case session of
        None \<Rightarrow>
          with_ClientSession
            (\<lambda>sid w1.
               case session_post env sid
                      \<lparr>req_url = url self, req_headers = headers self,
                       req_json = JObj [(''query'', JStr query)]\<rparr> w1 of
                 (Inl e, w2) \<Rightarrow> (Inl e, w2)
               | (Inr resp, w2) \<Rightarrow> (resp_json resp, w2)) w
      | Some sid \<Rightarrow>
          (case session_post env sid
                  \<lparr>req_url = url self, req_headers = headers self,
                   req_json = JObj [(''query'', JStr query)]\<rparr> w of
             (Inl e, w1) \<Rightarrow> (Inl e, w1)
           | (Inr resp, w1) \<Rightarrow> (resp_json resp, w1)))"

section \<open>flatten_model\<close>

text \<open>
  The dict comprehension over \<open>m.__annotations__.items()\<close> is \<open>flatten_items\<close>: it
  flattens the field types in order and stops at the first exception.
\<close>

fun flatten_model :: "pytype \<Rightarrow> error + json"
  and flatten_items :: "(string \<times> pytype) list \<Rightarrow> error + (string \<times> json) list" where
  "flatten_model (TypingList t) =
     (case flatten_model t of Inl e \<Rightarrow> Inl e | Inr j \<Rightarrow> Inr (JArr [j]))"
| "flatten_model (ModelClass n fs) =
     (case flatten_items fs of Inl e \<Rightarrow> Inl e | Inr js \<Rightarrow> Inr (JObj js))"
| "flatten_model (DataClass n fs) =
     (case flatten_items fs of Inl e \<Rightarrow> Inl e | Inr js \<Rightarrow> Inr (JObj js))"
| "flatten_model PyStr = Inr (JStr ''string'')"
| "flatten_model PyBool = Inr (JStr ''bool'')"
| "flatten_model PyFloat = Inr (JStr ''float'')"
| "flatten_model PyInt = Inr (JStr ''int'')"
| "flatten_model (OtherType s) = Inl (PyException (''unsupported datatype='' @ s))"
| "flatten_items [] = Inr []"
| "flatten_items ((k, v) # fs) =
     (case flatten_model v of
        Inl e \<Rightarrow> Inl e
      | Inr j \<Rightarrow>
          (case flatten_items fs of Inl e \<Rightarrow> Inl e | Inr js \<Rightarrow> Inr ((k, j) # js)))"

text \<open>
  The types \<open>flatten_model\<close> handles: the four builtin classes, lists of a supported
  type, and records all of whose field types are supported. \<open>unsupported_in\<close> lists, in
  the order \<open>flatten_model\<close> meets them, the texts of the other types inside a type.
\<close>

fun supported :: "pytype \<Rightarrow> bool"
  and supported_items :: "(string \<times> pytype) list \<Rightarrow> bool" where
  "supported PyStr = True"
| "supported PyBool = True"
| "supported PyFloat = True"
| "supported PyInt = True"
| "supported (TypingList t) = supported t"
| "supported (ModelClass n fs) = supported_items fs"
| "supported (DataClass n fs) = supported_items fs"
| "supported (OtherType s) = False"
| "supported_items [] = True"
| "supported_items ((k, v) # fs) = (supported v \<and> supported_items fs)"

fun unsupported_in :: "pytype \<Rightarrow> string list"
  and unsupported_in_items :: "(string \<times> pytype) list \<Rightarrow> string list" where
  "unsupported_in PyStr = []"
| "unsupported_in PyBool = []"
| "unsupported_in PyFloat = []"
| "unsupported_in PyInt = []"
| "unsupported_in (TypingList t) = unsupported_in t"
| "unsupported_in (ModelClass n fs) = unsupported_in_items fs"
| "unsupported_in (DataClass n fs) = unsupported_in_items fs"
| "unsupported_in (OtherType s) = [s]"
| "unsupported_in_items [] = []"
| "unsupported_in_items ((k, v) # fs) = unsupported_in v @ unsupported_in_items fs"

section \<open>Structured\<close>

definition serialize_input :: "pyobject \<Rightarrow> error + json" where
  "serialize_input x =
     (case x of
        DataclassObj n j \<Rightarrow> Inr j
      | ModelObj n j \<Rightarrow> Inr j
      | OtherObj n \<Rightarrow> Inl (AttributeError ''dict''))"

definition Structured_payload :: "pytype \<Rightarrow> pytype \<Rightarrow> string \<Rightarrow> pyobject \<Rightarrow> error + json" where
  "Structured_payload input_spec output_spec instructions input =
     (case flatten_model input_spec of
        Inl e \<Rightarrow> Inl e
      | Inr i \<Rightarrow>
          (case flatten_model output_spec of
             Inl e \<Rightarrow> Inl e
           | Inr out \<Rightarrow>
               (case serialize_input input of
                  Inl e \<Rightarrow> Inl e
                | Inr x \<Rightarrow>
                    Inr (JObj [(''input_spec'', i), (''output_spec'', out),
                               (''instructions'', JStr instructions), (''input'', x)]))))"

definition Structured_payload_async ::
  "pytype \<Rightarrow> pytype \<Rightarrow> string \<Rightarrow> pyobject \<Rightarrow> error + json" where
  "Structured_payload_async input_spec output_spec instructions input =
     (case flatten_model input_spec of
        Inl e \<Rightarrow> Inl e
      | Inr i \<Rightarrow>
          (case flatten_model output_spec of
             Inl e \<Rightarrow> Inl e
           | Inr out \<Rightarrow>
               (case serialize_input input of
                  Inl e \<Rightarrow> Inl e
                | Inr x \<Rightarrow>
                    Inr (JObj [(''input_spec'', i), (''output_spec'', out),
                               (''input'', x), (''instructions'', JStr instructions)]))))"

text \<open>\<open>value[key]\<close> on a decoded response.\<close>

definition getitem :: "json \<Rightarrow> string \<Rightarrow> error + json" where
  "getitem j key =
     (case j of
        JObj kvs \<Rightarrow> (case map_of kvs key of None \<Rightarrow> Inl (KeyError key) | Some v \<Rightarrow> Inr v)
      | _ \<Rightarrow> Inl (TypeError ''subscript''))"

text \<open>
  \<open>output_spec.parse_obj(result) if isinstance(output_spec, ModelMetaclass)
  else dacite.from_dict(output_spec, result)\<close>
\<close>

definition coerce_output :: "env \<Rightarrow> pytype \<Rightarrow> json \<Rightarrow> error + pyval" where
  "coerce_output env output_spec result =
     (case output_spec of
        ModelClass n fs \<Rightarrow> parse_obj env output_spec result
      | _ \<Rightarrow> from_dict env output_spec result)"

definition output_of :: "env \<Rightarrow> pytype \<Rightarrow> response \<Rightarrow> error + pyval" where
  "output_of env output_spec resp =
     (case resp_json resp of
        Inl e \<Rightarrow> Inl e
      | Inr j \<Rightarrow>
          (case getitem j ''output'' of
             Inl e \<Rightarrow> Inl e
           | Inr result \<Rightarrow> coerce_output env output_spec result))"

definition Structured_call ::
  "http_capability \<Rightarrow> env \<Rightarrow> pytype \<Rightarrow> pytype \<Rightarrow> string \<Rightarrow> pyobject \<Rightarrow> world
     \<Rightarrow> (error + pyval) \<times> world" where
  "Structured_call self env input_spec output_spec instructions input w =
     (case Structured_payload input_spec output_spec instructions input of
        Inl e \<Rightarrow> (Inl e, w)
      | Inr payload \<Rightarrow>
          (case requests_post env
                  \<lparr>req_url = url self, req_headers = headers self, req_json = payload\<rparr> w of
             (Inl e, w1) \<Rightarrow> (Inl e, w1)
           | (Inr r, w1) \<Rightarrow> (output_of env output_spec r, w1)))"

definition Structured_run_async ::
  "http_capability \<Rightarrow> env \<Rightarrow> pytype \<Rightarrow> pytype \<Rightarrow> string \<Rightarrow> pyobject \<Rightarrow> nat option \<Rightarrow> world
     \<Rightarrow> (error + pyval) \<times> world" where
  "Structured_run_async self env input_spec output_spec instructions input session w =
     (case Structured_payload_async input_spec output_spec instructions input of
        Inl e \<Rightarrow> (Inl e, w)
      | Inr payload \<Rightarrow>
          (case session of
             None \<Rightarrow>
               with_ClientSession
                 (\<lambda>sid w1.
                    case session_post env sid
                           \<lparr>req_url = url self, req_headers = headers self,
                            req_json = payload\<rparr> w1 of
                      (Inl e, w2) \<Rightarrow> (Inl e, w2)
                    | (Inr resp, w2) \<Rightarrow> (output_of env output_spec resp, w2)) w
           | Some sid \<Rightarrow>
               (case session_post env sid
                       \<lparr>req_url = url self, req_headers = headers self, req_json = payload\<rparr> w of
                  (Inl e, w1) \<Rightarrow> (Inl e, w1)
                | (Inr resp, w1) \<Rightarrow> (output_of env output_spec resp, w1))))"

section \<open>WebContent\<close>

definition WebContent_request :: "env \<Rightarrow> string \<Rightarrow> request" where
  "WebContent_request env page =
     \<lparr>req_url = ''https://chrome.browserless.io/content?token='' @ browserless_api_key env,
      req_headers = [(''Content-Type'', ''application/json''), (''Cache-Control'', ''no-cache'')],
      req_json = JObj [(''url'', JStr page)]\<rparr>"

definition WebContent_call :: "env \<Rightarrow> string \<Rightarrow> world \<Rightarrow> (error + string) \<times> world" where
  "WebContent_call env page w =
     (case requests_post env (WebContent_request env page) w of
        (Inl e, w1) \<Rightarrow> (Inl e, w1)
      | (Inr response, w1) \<Rightarrow>
          (case decode_utf8 response of
             Inl e \<Rightarrow> (Inl e, w1)
           | Inr html \<Rightarrow> (document_content env html, w1)))"

definition WebContent_with_session ::
  "env \<Rightarrow> string \<Rightarrow> nat \<Rightarrow> world \<Rightarrow> (error + string) \<times> world" where
  "WebContent_with_session env page sid w =
     (case session_post env sid (WebContent_request env page) w of
        (Inl e, w1) \<Rightarrow> (Inl e, w1)
      | (Inr resp, w1) \<Rightarrow>
          (case decode_utf8 resp of
             Inl e \<Rightarrow> (Inl e, w1)
           | Inr result \<Rightarrow> (document_summary env result, w1)))"

text \<open>
  With \<open>session is None\<close>, \<open>run_async\<close> awaits itself once with the session it opened,
  which takes the \<open>else\<close> branch.
\<close>

definition WebContent_run_async ::
  "env \<Rightarrow> string \<Rightarrow> nat option \<Rightarrow> world \<Rightarrow> (error + string) \<times> world" where
  "WebContent_run_async env page session w =
     (case session of
        None \<Rightarrow> with_ClientSession (\<lambda>sid w1. WebContent_with_session env page sid w1) w
      | Some sid \<Rightarrow> WebContent_with_session env page sid w)"

section \<open>The registry and Capability\<close>

datatype capability_instance =
    SummarizeI
  | DocumentQAI
  | SqlI http_capability
  | SearchI http_capability
  | StructuredI http_capability
  | WebContentI

definition CAPABILITIES :: "env \<Rightarrow> (string \<times> capability_instance) list" where
  "CAPABILITIES env =
     [(''multi/summarize'', SummarizeI),
      (''multi/document_qa'', DocumentQAI),
      (''multi/sql'', SqlI (Sql_default env)),
      (''multi/search'', SearchI (Search_default env)),
      (''multi/structured'', StructuredI (Structured_default env)),
      (''multi/web_content'', WebContentI)]"

text \<open>The field \<open>_capability\<close> of the source is \<open>bound\<close> here.\<close>

record capability =
  uri :: string
  bound :: "capability_instance option"

text \<open>
  The generated \<open>__init__(uri, _capability = None)\<close> followed by \<open>__post_init__\<close>: a
  \<open>KeyError\<close> of the lookup is caught, the valid URIs are printed, and the field keeps the
  value it was given.
\<close>

definition Capability_init ::
  "env \<Rightarrow> string \<Rightarrow> capability_instance option \<Rightarrow> world \<Rightarrow> capability \<times> world" where
  "Capability_init env u given w =
     (case map_of (CAPABILITIES env) u of
        Some c \<Rightarrow> (\<lparr>uri = u, bound = Some c\<rparr>, w)
      | None \<Rightarrow>
          (\<lparr>uri = u, bound = given\<rparr>,
           fold (\<lambda>k. print (''  '' @ k)) (map fst (CAPABILITIES env))
             (print (''Capability lookup failed for uri='' @ u @ ''.\<newline>Valid URIs are:'') w)))"

definition Capability :: "env \<Rightarrow> string \<Rightarrow> world \<Rightarrow> capability \<times> world" where
  "Capability env u w = Capability_init env u None w"

text \<open>
  The arguments of a call, one shape for each signature. \<open>*args, **kwargs\<close> are passed
  on as they are, so arguments that do not fit the bound capability's signature raise
  \<open>TypeError\<close> there.
\<close>

datatype arguments =
    SummarizeArgs string
  | DocumentQAArgs string string
  | SqlArgs string string "string option"
  | SearchArgs string
  | StructuredArgs pytype pytype string pyobject
  | WebContentArgs string

definition as_json :: "(error + json) \<times> world \<Rightarrow> (error + pyval) \<times> world" where
  "as_json rw = (case rw of (Inl e, w) \<Rightarrow> (Inl e, w) | (Inr j, w) \<Rightarrow> (Inr (Json j), w))"

definition as_text :: "(error + string) \<times> world \<Rightarrow> (error + pyval) \<times> world" where
  "as_text rw = (case rw of (Inl e, w) \<Rightarrow> (Inl e, w) | (Inr s, w) \<Rightarrow> (Inr (Text s), w))"

definition bad_arguments :: "world \<Rightarrow> (error + pyval) \<times> world" where
  "bad_arguments w = (Inl (TypeError ''arguments''), w)"

definition invoke ::
  "env \<Rightarrow> capability_instance \<Rightarrow> arguments \<Rightarrow> world \<Rightarrow> (error + pyval) \<times> world" where
  "invoke env c a w =
     (case c of
        SummarizeI \<Rightarrow>
          (case a of SummarizeArgs d \<Rightarrow> as_json (Summarize_call env d w) | _ \<Rightarrow> bad_arguments w)
      | DocumentQAI \<Rightarrow>
          (case a of
             DocumentQAArgs d q \<Rightarrow> as_json (DocumentQA_call env d q w)
           | _ \<Rightarrow> bad_arguments w)
      | SqlI self \<Rightarrow>
          (case a of SqlArgs q s v \<Rightarrow> as_json (Sql_call self env q s v w) | _ \<Rightarrow> bad_arguments w)
      | SearchI self \<Rightarrow>
          (case a of SearchArgs q \<Rightarrow> as_json (Search_call self env q w) | _ \<Rightarrow> bad_arguments w)
      | StructuredI self \<Rightarrow>
          (case a of
             StructuredArgs i out ins x \<Rightarrow> Structured_call self env i out ins x w
           | _ \<Rightarrow> bad_arguments w)
      | WebContentI \<Rightarrow>
          (case a of WebContentArgs u \<Rightarrow> as_text (WebContent_call env u w) | _ \<Rightarrow> bad_arguments w))"

definition invoke_async ::
  "env \<Rightarrow> capability_instance \<Rightarrow> arguments \<Rightarrow> nat option \<Rightarrow> world
     \<Rightarrow> (error + pyval) \<times> world" where
  "invoke_async env c a s w =
     (case c of
        SummarizeI \<Rightarrow>
          (case a of
             SummarizeArgs d \<Rightarrow> as_json (Summarize_run_async env d s w)
           | _ \<Rightarrow> bad_arguments w)
      | DocumentQAI \<Rightarrow>
          (case a of
             DocumentQAArgs d q \<Rightarrow> as_json (DocumentQA_run_async env d q s w)
           | _ \<Rightarrow> bad_arguments w)
      | SqlI self \<Rightarrow>
          (case a of
             SqlArgs q sc v \<Rightarrow> as_json (Sql_run_async self env q sc v s w)
           | _ \<Rightarrow> bad_arguments w)
      | SearchI self \<Rightarrow>
          (case a of
             SearchArgs q \<Rightarrow> as_json (Search_run_async self env q s w)
           | _ \<Rightarrow> bad_arguments w)
      | StructuredI self \<Rightarrow>
          (case a of
             StructuredArgs i out ins x \<Rightarrow> Structured_run_async self env i out ins x s w
           | _ \<Rightarrow> bad_arguments w)
      | WebContentI \<Rightarrow>
          (case a of
             WebContentArgs u \<Rightarrow> as_text (WebContent_run_async env u s w)
           | _ \<Rightarrow> bad_arguments w))"

text \<open>
  \<open>self._capability(*args, **kwargs)\<close> with \<open>_capability = None\<close> raises
  \<open>TypeError: 'NoneType' object is not callable\<close>; \<open>self._capability.run_async\<close> raises
  \<open>AttributeError: 'NoneType' object has no attribute 'run_async'\<close>.
\<close>

definition Capability_call ::
  "env \<Rightarrow> capability \<Rightarrow> arguments \<Rightarrow> world \<Rightarrow> (error + pyval) \<times> world" where
  "Capability_call env self args w =
     (case bound self of
        None \<Rightarrow> (Inl (TypeError ''NoneType object is not callable''), w)
      | Some c \<Rightarrow> invoke env c args w)"

definition Capability_run_async ::
  "env \<Rightarrow> capability \<Rightarrow> arguments \<Rightarrow> nat option \<Rightarrow> world \<Rightarrow> (error + pyval) \<times> world" where
  "Capability_run_async env self args session w =
     (case bound self of
        None \<Rightarrow> (Inl (AttributeError ''NoneType object has no attribute run_async''), w)
      | Some c \<Rightarrow> invoke_async env c args session w)"

section \<open>Observations on a run\<close>

text \<open>
  \<open>attempt_result\<close> is what one attempt returns or raises when the network gives its
  \<open>n\<close>-th answer; \<open>attempt_fails\<close> says that it raises. \<open>rounds ev count k\<close> are the
  events of \<open>k\<close> failed iterations of the loop from the counter value \<open>count\<close>: the
  attempt \<open>ev\<close>, then the sleep. \<open>new_events w w'\<close> are the events added between two
  worlds; \<open>attempts\<close> counts the calls of \<open>post\<close> among events and \<open>sleeps\<close> lists the
  sleep durations.
\<close>

definition attempt_result :: "env \<Rightarrow> nat \<Rightarrow> request \<Rightarrow> error + json" where
  "attempt_result env n r =
     (case net env n r of NetworkError \<Rightarrow> Inl TransportError | Response b \<Rightarrow> resp_json b)"

definition attempt_fails :: "env \<Rightarrow> nat \<Rightarrow> request \<Rightarrow> bool" where
  "attempt_fails env n r =
     (case net env n r of NetworkError \<Rightarrow> True | Response b \<Rightarrow> json_body b = None)"

definition rounds :: "event \<Rightarrow> nat \<Rightarrow> nat \<Rightarrow> event list" where
  "rounds ev count k = concat (map (\<lambda>i. [ev, Sleep (2 ^ i)]) [count..<count + k])"

definition new_events :: "world \<Rightarrow> world \<Rightarrow> event list" where
  "new_events w w' = drop (length (trace w)) (trace w')"

fun is_attempt :: "event \<Rightarrow> bool" where
  "is_attempt (Post s r) = True"
| "is_attempt (PostRefused sid r) = True"
| "is_attempt (Sleep d) = False"
| "is_attempt (SessionOpen sid) = False"
| "is_attempt (SessionClose sid) = False"

definition attempts :: "event list \<Rightarrow> nat" where
  "attempts t = length (filter is_attempt t)"

fun slept :: "event \<Rightarrow> nat list" where
  "slept (Sleep d) = [d]"
| "slept (Post s r) = []"
| "slept (PostRefused sid r) = []"
| "slept (SessionOpen sid) = []"
| "slept (SessionClose sid) = []"

definition sleeps :: "event list \<Rightarrow> nat list" where
  "sleeps t = concat (map slept t)"

fun is_session_event :: "event \<Rightarrow> bool" where
  "is_session_event (SessionOpen sid) = True"
| "is_session_event (SessionClose sid) = True"
| "is_session_event (Post s r) = False"
| "is_session_event (PostRefused sid r) = False"
| "is_session_event (Sleep d) = False"

definition session_events :: "event list \<Rightarrow> event list" where
  "session_events t = filter is_session_event t"

text \<open>
  \<open>requests_of\<close> lists the requests handed to \<open>post\<close> among events. \<open>same_dict\<close> is
  equality of two payloads as Python dicts: the same items, whatever their order.
\<close>

fun request_of :: "event \<Rightarrow> request list" where
  "request_of (Post s r) = [r]"
| "request_of (PostRefused sid r) = [r]"
| "request_of (Sleep d) = []"
| "request_of (SessionOpen sid) = []"
| "request_of (SessionClose sid) = []"

definition requests_of :: "event list \<Rightarrow> request list" where
  "requests_of t = concat (map request_of t)"


section \<open>Example inputs\<close>

definition person_fields :: "(string \<times> pytype) list" where
  "person_fields = [(''name'', PyStr), (''age'', PyInt), (''tags'', TypingList PyStr)]"

definition quiet_env :: env where
  "quiet_env =
     \<lparr>api_key = ''k'', browserless_api_key = ''t'',
      net = (\<lambda>n r. NetworkError),
      parse_obj = (\<lambda>t j. Inr (Instance ''m'' j)),
      from_dict = (\<lambda>t j. Inr (Instance ''d'' j)),
      document_content = (\<lambda>s. Inr (''content of '' @ s)),
      document_summary = (\<lambda>s. Inr (''summary of '' @ s))\<rparr>"

definition world0 :: world where
  "world0 = \<lparr>trace = [], stdout = [], next_session = 0\<rparr>"

definition recovering_env :: "nat \<Rightarrow> env" where
  "recovering_env k =
     \<lparr>api_key = ''k'', browserless_api_key = ''t'',
      net = (\<lambda>n r. if n < k then NetworkError
                     else Response \<lparr>json_body = Some (JStr ''ok''), content = Some ''<p>ok</p>''\<rparr>),
      parse_obj = (\<lambda>t j. Inr (Instance ''m'' j)),
      from_dict = (\<lambda>t j. Inr (Instance ''d'' j)),
      document_content = (\<lambda>s. Inr (''content of '' @ s)),
      document_summary = (\<lambda>s. Inr (''summary of '' @ s))\<rparr>"

section \<open>Properties of flatten_model\<close>

lemma flatten_items_fields:
  "flatten_items fs = Inr js \<Longrightarrow>
     map fst js = map fst fs \<and>
     (\<forall>i<length fs. flatten_model (snd (fs ! i)) = Inr (snd (js ! i)))"
proof (induction fs arbitrary: js)
  case Nil
  then show ?case by simp
next
  case (Cons kv fs)
  obtain k v where kv: "kv = (k, v)" by (cases kv)
  from Cons.prems kv obtain j js' where
    j: "flatten_model v = Inr j" and js': "flatten_items fs = Inr js'" and js: "js = (k, j) # js'"
    by (auto split: sum.splits)
  from Cons.IH [OF js'] have IH: "map fst js' = map fst fs"
    "\<forall>i<length fs. flatten_model (snd (fs ! i)) = Inr (snd (js' ! i))" by simp_all
  show ?case
  proof (intro conjI allI impI)
    show "map fst js = map fst (kv # fs)" using IH(1) js kv by simp
  next
    fix i assume "i < length (kv # fs)"
    then show "flatten_model (snd ((kv # fs) ! i)) = Inr (snd (js ! i))"
      using IH(2) j js kv by (cases i) simp_all
  qed
qed

lemma supported_flatten:
  "(supported t \<longrightarrow> (\<exists>j. flatten_model t = Inr j) \<and> unsupported_in t = []) \<and>
   (\<not> supported t \<longrightarrow> unsupported_in t \<noteq> [] \<and>
      flatten_model t = Inl (PyException (''unsupported datatype='' @ hd (unsupported_in t))))"
  "(supported_items fs \<longrightarrow> (\<exists>js. flatten_items fs = Inr js) \<and> unsupported_in_items fs = []) \<and>
   (\<not> supported_items fs \<longrightarrow> unsupported_in_items fs \<noteq> [] \<and>
      flatten_items fs = Inl (PyException (''unsupported datatype='' @ hd (unsupported_in_items fs))))"
  by (induction t and fs rule: supported_supported_items.induct) (auto split: sum.splits)

text \<open>
  Claim C5. On a record type (a pydantic model class or a dataclass) \<open>flatten_model\<close>
  emits an object that has the declared field names, in order, each with the flattened
  type of that field; on \<open>List[T]\<close> it emits the one-element list of the flattened \<open>T\<close>; on
  \<open>str\<close>, \<open>bool\<close>, \<open>float\<close>, \<open>int\<close> it emits the tags "string", "bool", "float", "int".
  The record with the fields name: str, age: int, tags: List[str] flattens to
  {"name": "string", "age": "int", "tags": ["string"]}.
\<close>

theorem flatten_model_emits:
  "(flatten_model (ModelClass n fs) = Inr j \<longrightarrow>
      (\<exists>js. j = JObj js \<and> map fst js = map fst fs \<and>
         (\<forall>i<length fs. flatten_model (snd (fs ! i)) = Inr (snd (js ! i))))) \<and>
   (flatten_model (DataClass n fs) = Inr j \<longrightarrow>
      (\<exists>js. j = JObj js \<and> map fst js = map fst fs \<and>
         (\<forall>i<length fs. flatten_model (snd (fs ! i)) = Inr (snd (js ! i))))) \<and>
   (supported_items fs \<longrightarrow>
      (\<exists>js. flatten_model (ModelClass n fs) = Inr (JObj js)) \<and>
      (\<exists>js. flatten_model (DataClass n fs) = Inr (JObj js))) \<and>
   (flatten_model t = Inr e \<longrightarrow> flatten_model (TypingList t) = Inr (JArr [e])) \<and>
   flatten_model PyStr = Inr (JStr ''string'') \<and>
   flatten_model PyBool = Inr (JStr ''bool'') \<and>
   flatten_model PyFloat = Inr (JStr ''float'') \<and>
   flatten_model PyInt = Inr (JStr ''int'') \<and>
   flatten_model (ModelClass n person_fields) =
     Inr (JObj [(''name'', JStr ''string''), (''age'', JStr ''int''),
                (''tags'', JArr [JStr ''string''])]) \<and>
   flatten_model (DataClass n person_fields) =
     Inr (JObj [(''name'', JStr ''string''), (''age'', JStr ''int''),
                (''tags'', JArr [JStr ''string''])])"
proof -
  have model: "flatten_model (ModelClass n fs) = Inr j \<longrightarrow>
      (\<exists>js. j = JObj js \<and> map fst js = map fst fs \<and>
         (\<forall>i<length fs. flatten_model (snd (fs ! i)) = Inr (snd (js ! i))))"
    using flatten_items_fields [of fs] by (auto split: sum.splits)
  have dc: "flatten_model (DataClass n fs) = Inr j \<longrightarrow>
      (\<exists>js. j = JObj js \<and> map fst js = map fst fs \<and>
         (\<forall>i<length fs. flatten_model (snd (fs ! i)) = Inr (snd (js ! i))))"
    using flatten_items_fields [of fs] by (auto split: sum.splits)
  have total: "supported_items fs \<longrightarrow>
      (\<exists>js. flatten_model (ModelClass n fs) = Inr (JObj js)) \<and>
      (\<exists>js. flatten_model (DataClass n fs) = Inr (JObj js))"
    using supported_flatten(2) [of fs] by auto
  have lst: "flatten_model t = Inr e \<longrightarrow> flatten_model (TypingList t) = Inr (JArr [e])"
    by simp
  show ?thesis
    using model dc total lst by (simp add: person_fields_def)
qed

theorem flatten_model_emits_witness:
  "flatten_model (ModelClass ''Person'' person_fields) =
     Inr (JObj [(''name'', JStr ''string''), (''age'', JStr ''int''),
                (''tags'', JArr [JStr ''string''])]) \<and>
   flatten_model (DataClass ''Person'' person_fields) =
     Inr (JObj [(''name'', JStr ''string''), (''age'', JStr ''int''),
                (''tags'', JArr [JStr ''string''])]) \<and>
   supported_items person_fields \<and>
   flatten_model PyStr = Inr (JStr ''string'') \<and>
   flatten_model (TypingList PyStr) = Inr (JArr [JStr ''string''])"
  using flatten_model_emits [of "''Person''" person_fields
      "JObj [(''name'', JStr ''string''), (''age'', JStr ''int''), (''tags'', JArr [JStr ''string''])]"
      PyStr "JStr ''string''"]
  by (simp add: person_fields_def)



section \<open>Properties of the retry loop\<close>

lemma trace_emit [simp]: "trace (emit e w) = trace w @ [e]"
  by (simp add: emit_def)

lemma trace_print [simp]: "trace (print s w) = trace w"
  by (simp add: print_def)

lemma trace_backoff [simp]: "trace (backoff c w) = trace w @ [Sleep (2 ^ c)]"
  by (simp add: backoff_def time_sleep_def)

lemma next_session_emit [simp]: "next_session (emit e w) = next_session w"
  by (simp add: emit_def)

lemma next_session_print [simp]: "next_session (print s w) = next_session w"
  by (simp add: print_def)

lemma next_session_backoff [simp]: "next_session (backoff c w) = next_session w"
  by (simp add: backoff_def time_sleep_def)

lemma requests_sent_print [simp]: "requests_sent (print s w) = requests_sent w"
  by (simp add: requests_sent_def)

lemma requests_sent_backoff [simp]: "requests_sent (backoff c w) = requests_sent w"
  by (simp add: requests_sent_def)

lemma session_closed_print [simp]: "session_closed (print s w) sid = session_closed w sid"
  by (simp add: session_closed_def)

lemma session_closed_backoff [simp]: "session_closed (backoff c w) sid = session_closed w sid"
  by (simp add: session_closed_def)

lemma attempt_fails_result: "attempt_fails env n r \<Longrightarrow> isl (attempt_result env n r)"
  by (auto simp: attempt_fails_def attempt_result_def resp_json_def split: reply.splits)

lemma rounds_0 [simp]: "rounds ev count 0 = []"
  by (simp add: rounds_def)

lemma rounds_Suc: "rounds ev count (Suc k) = [ev, Sleep (2 ^ count)] @ rounds ev (Suc count) k"
  by (simp add: rounds_def upt_rec [of count])

lemma retry_loop_failed:
  "count < patience \<Longrightarrow> isl (fst (attempt w)) \<Longrightarrow>
     retry_loop name attempt count w =
       retry_loop name attempt (count + 1) (backoff count (snd (attempt w)))"
  by (subst retry_loop.simps) (auto split: prod.splits sum.splits)

lemma retry_loop_returned:
  "count < patience \<Longrightarrow> fst (attempt w) = Inr r \<Longrightarrow>
     retry_loop name attempt count w = (Inr r, snd (attempt w))"
  by (subst retry_loop.simps) (auto split: prod.splits sum.splits)

lemma retry_loop_done:
  "\<not> count < patience \<Longrightarrow> retry_loop name attempt count w = (Inl (exhausted name), w)"
  by (subst retry_loop.simps) simp


lemma retry_loop_exhausts:
  assumes res: "\<And>w. I w \<Longrightarrow> fst (a w) = attempt_result env (requests_sent w) req"
    and tr: "\<And>w. I w \<Longrightarrow> trace (snd (a w)) = trace w @ [Post s req]"
    and inv: "\<And>w c. I w \<Longrightarrow> I (backoff c (snd (a w)))"
  shows "I w \<Longrightarrow> count + k = patience \<Longrightarrow>
     (\<forall>i<k. attempt_fails env (requests_sent w + i) req) \<Longrightarrow>
     fst (retry_loop name a count w) = Inl (exhausted name) \<and>
     trace (snd (retry_loop name a count w)) = trace w @ rounds (Post s req) count k"
proof (induction k arbitrary: count w)
  case 0
  then show ?case by (simp add: retry_loop_done)
next
  case (Suc k)
  let ?w = "backoff count (snd (a w))"
  have f0: "attempt_fails env (requests_sent w) req" using Suc.prems(3) by force
  then have fl: "isl (fst (a w))" using res [OF Suc.prems(1)] attempt_fails_result by simp
  have step: "retry_loop name a count w = retry_loop name a (count + 1) ?w"
    using Suc.prems(2) fl by (simp add: retry_loop_failed)
  have sent: "requests_sent ?w = requests_sent w + 1"
    using tr [OF Suc.prems(1)] by (simp add: requests_sent_def)
  have "fst (retry_loop name a (count + 1) ?w) = Inl (exhausted name) \<and>
        trace (snd (retry_loop name a (count + 1) ?w)) =
          trace ?w @ rounds (Post s req) (count + 1) k"
  proof (rule Suc.IH)
    show "I ?w" using inv Suc.prems(1) by simp
    show "count + 1 + k = patience" using Suc.prems(2) by simp
    show "\<forall>i<k. attempt_fails env (requests_sent ?w + i) req"
      using Suc.prems(3) sent by (metis Suc_less_eq add_Suc_shift plus_1_eq_Suc add.commute add_Suc_right)
  qed
  then show ?case
    using step tr [OF Suc.prems(1)] by (simp add: rounds_Suc)
qed

lemma retry_loop_never_succeeds:
  assumes fl: "\<And>w. I w \<Longrightarrow> isl (fst (a w))"
    and tr: "\<And>w. I w \<Longrightarrow> trace (snd (a w)) = trace w @ [ev]"
    and inv: "\<And>w c. I w \<Longrightarrow> I (backoff c (snd (a w)))"
  shows "I w \<Longrightarrow> count + k = patience \<Longrightarrow>
     fst (retry_loop name a count w) = Inl (exhausted name) \<and>
     trace (snd (retry_loop name a count w)) = trace w @ rounds ev count k"
proof (induction k arbitrary: count w)
  case 0
  then show ?case by (simp add: retry_loop_done)
next
  case (Suc k)
  let ?w = "backoff count (snd (a w))"
  have step: "retry_loop name a count w = retry_loop name a (count + 1) ?w"
    using Suc.prems fl by (simp add: retry_loop_failed)
  have "fst (retry_loop name a (count + 1) ?w) = Inl (exhausted name) \<and>
        trace (snd (retry_loop name a (count + 1) ?w)) = trace ?w @ rounds ev (count + 1) k"
    using Suc.prems inv by (intro Suc.IH) simp_all
  then show ?case
    using step tr [OF Suc.prems(1)] by (simp add: rounds_Suc)
qed

lemma new_events_append: "trace w' = trace w @ t \<Longrightarrow> new_events w w' = t"
  by (simp add: new_events_def)

lemma attempts_rounds: "is_attempt ev \<Longrightarrow> attempts (rounds ev count k) = k"
  by (induction k arbitrary: count) (simp_all add: rounds_Suc attempts_def)




lemma exhausted_DocumentQA:
  "exhausted ''DocumentQA'' = PyException ''[DocumentQA] failed after hitting max retries''"
  by (simp add: exhausted_def)

lemma exhausted_Summarize:
  "exhausted ''Summarize'' = PyException ''[Summarize] failed after hitting max retries''"
  by (simp add: exhausted_def)

lemma DocumentQA_call_loop_retry:
  "DocumentQA_call_loop env document query count w =
     retry_loop ''DocumentQA'' (DocumentQA_call_try env document query) count w"
proof (induction "patience - count" arbitrary: count w)
  case 0
  then show ?case
    by (subst DocumentQA_call_loop.simps, subst retry_loop.simps) (simp add: exhausted_DocumentQA)
next
  case (Suc n)
  then have lt: "count < patience" and n: "n = patience - (count + 1)"
    by simp_all
  obtain r w1 where t: "DocumentQA_call_try env document query w = (r, w1)"
    by (cases "DocumentQA_call_try env document query w")
  show ?case
  proof (cases r)
    case (Inr j)
    with lt t show ?thesis
      by (subst DocumentQA_call_loop.simps, subst retry_loop.simps) simp
  next
    case (Inl e)
    with lt t Suc.hyps(1) [OF n, of "backoff count w1"] show ?thesis
      by (subst DocumentQA_call_loop.simps, subst retry_loop.simps) simp
  qed
qed

lemma Summarize_call_loop_retry:
  "Summarize_call_loop env document count w =
     retry_loop ''Summarize'' (Summarize_call_try env document) count w"
proof (induction "patience - count" arbitrary: count w)
  case 0
  then show ?case
    by (subst Summarize_call_loop.simps, subst retry_loop.simps) (simp add: exhausted_Summarize)
next
  case (Suc n)
  then have lt: "count < patience" and n: "n = patience - (count + 1)"
    by simp_all
  obtain r w1 where t: "Summarize_call_try env document w = (r, w1)"
    by (cases "Summarize_call_try env document w")
  show ?case
  proof (cases r)
    case (Inr j)
    with lt t show ?thesis
      by (subst Summarize_call_loop.simps, subst retry_loop.simps) simp
  next
    case (Inl e)
    with lt t Suc.hyps(1) [OF n, of "backoff count w1"] show ?thesis
      by (subst Summarize_call_loop.simps, subst retry_loop.simps) simp
  qed
qed

lemma DocumentQA_async_loop_retry:
  "DocumentQA_async_loop env document query (Some sid) count w =
     retry_loop ''DocumentQA'' (DocumentQA_async_try env document query sid) count w"
proof (induction "patience - count" arbitrary: count w)
  case 0
  then show ?case
    by (subst DocumentQA_async_loop.simps, subst retry_loop.simps) (simp add: exhausted_DocumentQA)
next
  case (Suc n)
  then have lt: "count < patience" and n: "n = patience - (count + 1)"
    by simp_all
  obtain r w1 where t: "DocumentQA_async_try env document query sid w = (r, w1)"
    by (cases "DocumentQA_async_try env document query sid w")
  show ?case
  proof (cases r)
    case (Inr j)
    with lt t show ?thesis
      by (subst DocumentQA_async_loop.simps, subst retry_loop.simps) simp
  next
    case (Inl e)
    with lt t Suc.hyps(1) [OF n, of "backoff count w1"] show ?thesis
      by (subst DocumentQA_async_loop.simps, subst retry_loop.simps) simp
  qed
qed

lemma Summarize_async_loop_retry:
  "Summarize_async_loop env document (Some sid) count w =
     retry_loop ''Summarize'' (Summarize_async_try env document sid) count w"
proof (induction "patience - count" arbitrary: count w)
  case 0
  then show ?case
    by (subst Summarize_async_loop.simps, subst retry_loop.simps) (simp add: exhausted_Summarize)
next
  case (Suc n)
  then have lt: "count < patience" and n: "n = patience - (count + 1)"
    by simp_all
  obtain r w1 where t: "Summarize_async_try env document sid w = (r, w1)"
    by (cases "Summarize_async_try env document sid w")
  show ?case
  proof (cases r)
    case (Inr j)
    with lt t show ?thesis
      by (subst Summarize_async_loop.simps, subst retry_loop.simps) simp
  next
    case (Inl e)
    with lt t Suc.hyps(1) [OF n, of "backoff count w1"] show ?thesis
      by (subst Summarize_async_loop.simps, subst retry_loop.simps) simp
  qed
qed

lemma deliver_result:
  "fst (deliver env s r w) =
     (case net env (requests_sent w) r of NetworkError \<Rightarrow> Inl TransportError | Response b \<Rightarrow> Inr b)"
  "snd (deliver env s r w) = emit (Post s r) w"
  by (simp_all add: deliver_def split: reply.splits)

lemma post_json_sync:
  "(case requests_post env r w of (Inl e, w1) \<Rightarrow> (Inl e, w1) | (Inr resp, w1) \<Rightarrow> (resp_json resp, w1))
     = (attempt_result env (requests_sent w) r, emit (Post None r) w)"
  by (simp add: requests_post_def deliver_def attempt_result_def split: reply.splits)

lemma post_json_session:
  "(case session_post env sid r w of (Inl e, w1) \<Rightarrow> (Inl e, w1) | (Inr resp, w1) \<Rightarrow> (resp_json resp, w1))
     = (if session_closed w sid then (Inl SessionClosed, emit (PostRefused sid r) w)
        else (attempt_result env (requests_sent w) r, emit (Post (Some sid) r) w))"
  by (simp add: session_post_def deliver_def attempt_result_def split: reply.splits)

lemma DocumentQA_call_try_eq:
  "DocumentQA_call_try env d q w =
     (attempt_result env (requests_sent w) (DocumentQA_request env d q),
      emit (Post None (DocumentQA_request env d q)) w)"
  by (simp add: DocumentQA_call_try_def post_json_sync)

lemma Summarize_call_try_eq:
  "Summarize_call_try env d w =
     (attempt_result env (requests_sent w) (Summarize_request env d),
      emit (Post None (Summarize_request env d)) (print (running_msg ''Summarize'' d) w))"
  by (simp add: Summarize_call_try_def post_json_sync)

lemma DocumentQA_async_try_eq:
  "DocumentQA_async_try env d q sid w =
     (if session_closed w sid
      then (Inl SessionClosed, emit (PostRefused sid (DocumentQA_request env d q)) w)
      else (attempt_result env (requests_sent w) (DocumentQA_request env d q),
            emit (Post (Some sid) (DocumentQA_request env d q)) w))"
  by (simp add: DocumentQA_async_try_def post_json_session)

lemma Summarize_async_try_eq:
  "Summarize_async_try env d sid w =
     (if session_closed w sid
      then (Inl SessionClosed,
            emit (PostRefused sid (Summarize_request env d)) (print (running_msg ''Summarize'' d) w))
      else (attempt_result env (requests_sent w) (Summarize_request env d),
            emit (Post (Some sid) (Summarize_request env d))
              (print (running_msg ''Summarize'' d) w)))"
  by (simp add: Summarize_async_try_def post_json_session)

lemma session_closed_emit_Post [simp]:
  "session_closed (emit (Post s r) w) sid = session_closed w sid"
  "session_closed (emit (PostRefused s' r) w) sid = session_closed w sid"
  by (simp_all add: session_closed_def)




lemma DocumentQA_call_exhausts:
  assumes "\<forall>i<patience. attempt_fails env (requests_sent w + i) (DocumentQA_request env d q)"
  shows "fst (DocumentQA_call env d q w) =
           Inl (PyException ''[DocumentQA] failed after hitting max retries'') \<and>
         new_events w (snd (DocumentQA_call env d q w)) =
           rounds (Post None (DocumentQA_request env d q)) 0 patience"
proof -
  let ?w = "print (running_msg ''DocumentQA'' d) w"
  have "fst (retry_loop ''DocumentQA'' (DocumentQA_call_try env d q) 0 ?w) =
          Inl (exhausted ''DocumentQA'') \<and>
        trace (snd (retry_loop ''DocumentQA'' (DocumentQA_call_try env d q) 0 ?w)) =
          trace ?w @ rounds (Post None (DocumentQA_request env d q)) 0 patience"
    using assms
    by (intro retry_loop_exhausts [where I = "\<lambda>w. True" and env = env])
      (simp_all add: DocumentQA_call_try_eq)
  then show ?thesis
    by (simp add: DocumentQA_call_def DocumentQA_call_loop_retry new_events_def
        exhausted_DocumentQA)
qed


lemma Summarize_call_exhausts:
  assumes "\<forall>i<patience. attempt_fails env (requests_sent w + i) (Summarize_request env d)"
  shows "fst (Summarize_call env d w) =
           Inl (PyException ''[Summarize] failed after hitting max retries'') \<and>
         new_events w (snd (Summarize_call env d w)) =
           rounds (Post None (Summarize_request env d)) 0 patience"
proof -
  have "fst (retry_loop ''Summarize'' (Summarize_call_try env d) 0 w) =
          Inl (exhausted ''Summarize'') \<and>
        trace (snd (retry_loop ''Summarize'' (Summarize_call_try env d) 0 w)) =
          trace w @ rounds (Post None (Summarize_request env d)) 0 patience"
    using assms
    by (intro retry_loop_exhausts [where I = "\<lambda>w. True" and env = env])
      (simp_all add: Summarize_call_try_eq)
  then show ?thesis
    by (simp add: Summarize_call_def Summarize_call_loop_retry new_events_def
        exhausted_Summarize)
qed

lemma DocumentQA_session_exhausts:
  assumes "\<forall>i<patience. attempt_fails env (requests_sent w + i) (DocumentQA_request env d q)"
    and "\<not> session_closed w sid"
  shows "fst (DocumentQA_run_async env d q (Some sid) w) =
           Inl (PyException ''[DocumentQA] failed after hitting max retries'') \<and>
         new_events w (snd (DocumentQA_run_async env d q (Some sid) w)) =
           rounds (Post (Some sid) (DocumentQA_request env d q)) 0 patience"
proof -
  let ?w = "print (running_msg ''DocumentQA'' d) w"
  have "fst (retry_loop ''DocumentQA'' (DocumentQA_async_try env d q sid) 0 ?w) =
          Inl (exhausted ''DocumentQA'') \<and>
        trace (snd (retry_loop ''DocumentQA'' (DocumentQA_async_try env d q sid) 0 ?w)) =
          trace ?w @ rounds (Post (Some sid) (DocumentQA_request env d q)) 0 patience"
    using assms
    by (intro retry_loop_exhausts [where I = "\<lambda>w. \<not> session_closed w sid" and env = env])
      (simp_all add: DocumentQA_async_try_eq)
  then show ?thesis
    by (simp add: DocumentQA_run_async_def DocumentQA_async_loop_retry new_events_def
        exhausted_DocumentQA)
qed

lemma DocumentQA_closed_session_exhausts:
  assumes "session_closed w sid"
  shows "fst (DocumentQA_run_async env d q (Some sid) w) =
           Inl (PyException ''[DocumentQA] failed after hitting max retries'') \<and>
         new_events w (snd (DocumentQA_run_async env d q (Some sid) w)) =
           rounds (PostRefused sid (DocumentQA_request env d q)) 0 patience"
proof -
  let ?w = "print (running_msg ''DocumentQA'' d) w"
  have "fst (retry_loop ''DocumentQA'' (DocumentQA_async_try env d q sid) 0 ?w) =
          Inl (exhausted ''DocumentQA'') \<and>
        trace (snd (retry_loop ''DocumentQA'' (DocumentQA_async_try env d q sid) 0 ?w)) =
          trace ?w @ rounds (PostRefused sid (DocumentQA_request env d q)) 0 patience"
    using assms
    by (intro retry_loop_never_succeeds [where I = "\<lambda>w. session_closed w sid"])
      (simp_all add: DocumentQA_async_try_eq)
  then show ?thesis
    by (simp add: DocumentQA_run_async_def DocumentQA_async_loop_retry new_events_def
        exhausted_DocumentQA)
qed

lemma Summarize_session_exhausts:
  assumes "\<forall>i<patience. attempt_fails env (requests_sent w + i) (Summarize_request env d)"
    and "\<not> session_closed w sid"
  shows "fst (Summarize_run_async env d (Some sid) w) =
           Inl (PyException ''[Summarize] failed after hitting max retries'') \<and>
         new_events w (snd (Summarize_run_async env d (Some sid) w)) =
           rounds (Post (Some sid) (Summarize_request env d)) 0 patience"
proof -
  have "fst (retry_loop ''Summarize'' (Summarize_async_try env d sid) 0 w) =
          Inl (exhausted ''Summarize'') \<and>
        trace (snd (retry_loop ''Summarize'' (Summarize_async_try env d sid) 0 w)) =
          trace w @ rounds (Post (Some sid) (Summarize_request env d)) 0 patience"
    using assms
    by (intro retry_loop_exhausts [where I = "\<lambda>w. \<not> session_closed w sid" and env = env])
      (simp_all add: Summarize_async_try_eq)
  then show ?thesis
    by (simp add: Summarize_run_async_def Summarize_async_loop_retry new_events_def
        exhausted_Summarize)
qed

lemma Summarize_closed_session_exhausts:
  assumes "session_closed w sid"
  shows "fst (Summarize_run_async env d (Some sid) w) =
           Inl (PyException ''[Summarize] failed after hitting max retries'') \<and>
         new_events w (snd (Summarize_run_async env d (Some sid) w)) =
           rounds (PostRefused sid (Summarize_request env d)) 0 patience"
proof -
  have "fst (retry_loop ''Summarize'' (Summarize_async_try env d sid) 0 w) =
          Inl (exhausted ''Summarize'') \<and>
        trace (snd (retry_loop ''Summarize'' (Summarize_async_try env d sid) 0 w)) =
          trace w @ rounds (PostRefused sid (Summarize_request env d)) 0 patience"
    using assms
    by (intro retry_loop_never_succeeds [where I = "\<lambda>w. session_closed w sid"])
      (simp_all add: Summarize_async_try_eq)
  then show ?thesis
    by (simp add: Summarize_run_async_def Summarize_async_loop_retry new_events_def
        exhausted_Summarize)
qed

section \<open>Retries, backoff and the first success\<close>

lemma patience_8: "patience = 8"
  by (simp add: patience_def)


text \<open>
  Claim C1, as amended. For \<open>DocumentQA\<close> and \<open>Summarize\<close>, the two capabilities that
  have the retry loop, through the synchronous entry point or through the asynchronous
  entry point with a session supplied by the caller: when every attempt fails, exactly
  8 attempts are made and then the exception naming the capability
  ("[DocumentQA] failed after hitting max retries") is raised.
\<close>

theorem retries_exhausted:
  assumes "\<forall>n r. attempt_fails env n r"
  shows "fst (DocumentQA_call env d q w) =
           Inl (PyException ''[DocumentQA] failed after hitting max retries'') \<and>
         attempts (new_events w (snd (DocumentQA_call env d q w))) = 8 \<and>
         fst (DocumentQA_run_async env d q (Some sid) w) =
           Inl (PyException ''[DocumentQA] failed after hitting max retries'') \<and>
         attempts (new_events w (snd (DocumentQA_run_async env d q (Some sid) w))) = 8 \<and>
         fst (Summarize_call env d w) =
           Inl (PyException ''[Summarize] failed after hitting max retries'') \<and>
         attempts (new_events w (snd (Summarize_call env d w))) = 8 \<and>
         fst (Summarize_run_async env d (Some sid) w) =
           Inl (PyException ''[Summarize] failed after hitting max retries'') \<and>
         attempts (new_events w (snd (Summarize_run_async env d (Some sid) w))) = 8"
proof -
  have a: "fst (DocumentQA_call env d q w) =
             Inl (PyException ''[DocumentQA] failed after hitting max retries'') \<and>
           attempts (new_events w (snd (DocumentQA_call env d q w))) = 8"
    using DocumentQA_call_exhausts [of env w d q] assms
    by (simp add: attempts_rounds patience_8)
  have b: "fst (DocumentQA_run_async env d q (Some sid) w) =
             Inl (PyException ''[DocumentQA] failed after hitting max retries'') \<and>
           attempts (new_events w (snd (DocumentQA_run_async env d q (Some sid) w))) = 8"
  proof (cases "session_closed w sid")
    case True
    then show ?thesis
      using DocumentQA_closed_session_exhausts [of w sid env d q]
      by (simp add: attempts_rounds patience_8)
  next
    case False
    then show ?thesis
      using DocumentQA_session_exhausts [of env w d q sid] assms
      by (simp add: attempts_rounds patience_8)
  qed
  have c: "fst (Summarize_call env d w) =
             Inl (PyException ''[Summarize] failed after hitting max retries'') \<and>
           attempts (new_events w (snd (Summarize_call env d w))) = 8"
    using Summarize_call_exhausts [of env w d] assms
    by (simp add: attempts_rounds patience_8)
  have e: "fst (Summarize_run_async env d (Some sid) w) =
             Inl (PyException ''[Summarize] failed after hitting max retries'') \<and>
           attempts (new_events w (snd (Summarize_run_async env d (Some sid) w))) = 8"
  proof (cases "session_closed w sid")
    case True
    then show ?thesis
      using Summarize_closed_session_exhausts [of w sid env d]
      by (simp add: attempts_rounds patience_8)
  next
    case False
    then show ?thesis
      using Summarize_session_exhausts [of env w d sid] assms
      by (simp add: attempts_rounds patience_8)
  qed
  show ?thesis using a b c e by simp
qed

theorem retries_exhausted_witness:
  "(\<forall>n r. attempt_fails quiet_env n r) \<and>
   fst (DocumentQA_call quiet_env ''doc'' ''why'' world0) =
     Inl (PyException ''[DocumentQA] failed after hitting max retries'') \<and>
   attempts (new_events world0 (snd (DocumentQA_call quiet_env ''doc'' ''why'' world0))) = 8 \<and>
   fst (Summarize_run_async quiet_env ''doc'' (Some 0) world0) =
     Inl (PyException ''[Summarize] failed after hitting max retries'') \<and>
   attempts (new_events world0 (snd (Summarize_run_async quiet_env ''doc'' (Some 0) world0))) = 8"
proof -
  have h: "\<forall>n r. attempt_fails quiet_env n r"
    by (simp add: attempt_fails_def quiet_env_def)
  show ?thesis
    using h retries_exhausted [OF h, of "''doc''" "''why''" world0 0] by simp
qed

text \<open>
  Claim C1 as stated fails for the capabilities that have no retry loop: with a network
  that always fails, \<open>Sql\<close> makes one attempt and lets the transport's error through.
\<close>

theorem sql_single_attempt:
  "fst (Sql_call (Sql_default quiet_env) quiet_env ''q'' ''s'' sql_variant_default world0) =
     Inl TransportError \<and>
   attempts (new_events world0
     (snd (Sql_call (Sql_default quiet_env) quiet_env ''q'' ''s'' sql_variant_default world0))) = 1"
  by (simp add: Sql_call_def requests_post_def deliver_def quiet_env_def world0_def
      new_events_def attempts_def emit_def)





section \<open>Sessions\<close>

lemma session_events_append [simp]:
  "session_events (s @ t) = session_events s @ session_events t"
  by (simp add: session_events_def)

lemma session_events_simps [simp]:
  "session_events [] = []"
  "session_events (Post s r # t) = session_events t"
  "session_events (PostRefused sid r # t) = session_events t"
  "session_events (Sleep d # t) = session_events t"
  "session_events (SessionOpen sid # t) = SessionOpen sid # session_events t"
  "session_events (SessionClose sid # t) = SessionClose sid # session_events t"
  by (simp_all add: session_events_def)

lemma retry_loop_session_events:
  assumes att: "\<And>w. \<exists>t. trace (snd (a w)) = trace w @ t \<and> session_events t = []"
  shows "\<exists>t. trace (snd (retry_loop name a count w)) = trace w @ t \<and> session_events t = []"
proof (induction "patience - count" arbitrary: count w)
  case 0
  then show ?case by (simp add: retry_loop_done)
next
  case (Suc n)
  then have lt: "count < patience" and n: "n = patience - (count + 1)"
    by simp_all
  obtain t where t: "trace (snd (a w)) = trace w @ t" "session_events t = []"
    using att by blast
  show ?case
  proof (cases "fst (a w)")
    case (Inr r)
    with lt t show ?thesis by (simp add: retry_loop_returned)
  next
    case (Inl e)
    then have step: "retry_loop name a count w =
        retry_loop name a (count + 1) (backoff count (snd (a w)))"
      using lt by (simp add: retry_loop_failed)
    obtain t' where t': "trace (snd (retry_loop name a (count + 1) (backoff count (snd (a w))))) =
        trace (backoff count (snd (a w))) @ t'" "session_events t' = []"
      using Suc.hyps(1) [OF n] by blast
    show ?thesis
      using step t t' by simp
  qed
qed

lemma DocumentQA_async_try_events:
  "\<exists>t. trace (snd (DocumentQA_async_try env d q sid w)) = trace w @ t \<and> session_events t = []"
  by (simp add: DocumentQA_async_try_eq)

lemma Summarize_async_try_events:
  "\<exists>t. trace (snd (Summarize_async_try env d sid w)) = trace w @ t \<and> session_events t = []"
  by (simp add: Summarize_async_try_eq)

lemma DocumentQA_session_loop_events:
  "\<exists>t. trace (snd (DocumentQA_async_loop env d q (Some sid) count w)) = trace w @ t \<and>
     session_events t = []"
  using retry_loop_session_events [of "DocumentQA_async_try env d q sid", OF DocumentQA_async_try_events]
  by (simp add: DocumentQA_async_loop_retry)

lemma Summarize_session_loop_events:
  "\<exists>t. trace (snd (Summarize_async_loop env d (Some sid) count w)) = trace w @ t \<and>
     session_events t = []"
  using retry_loop_session_events [of "Summarize_async_try env d sid", OF Summarize_async_try_events]
  by (simp add: Summarize_async_loop_retry)

lemma trace_ClientSession [simp]:
  "fst (ClientSession w) = next_session w"
  "trace (snd (ClientSession w)) = trace w @ [SessionOpen (next_session w)]"
  by (simp_all add: ClientSession_def)

lemma trace_session_close [simp]: "trace (session_close sid w) = trace w @ [SessionClose sid]"
  by (simp add: session_close_def)

lemma DocumentQA_own_session_events:
  "\<exists>t. trace (snd (DocumentQA_async_loop env d q None 0 w)) = trace w @ t \<and>
     session_events t = [SessionOpen (next_session w), SessionClose (next_session w)]"
proof -
  let ?sid = "next_session w"
  let ?w1 = "print (running_msg ''DocumentQA'' d) (snd (ClientSession w))"
  let ?inner = "DocumentQA_async_loop env d q (Some ?sid) 0 ?w1"
  obtain t1 where t1: "trace (snd ?inner) = trace ?w1 @ t1" "session_events t1 = []"
    using DocumentQA_session_loop_events by blast
  have unfold: "DocumentQA_async_loop env d q None 0 w =
      (case ?inner of
         (Inr j, w2) \<Rightarrow> (Inr j, session_close ?sid w2)
       | (Inl e, w2) \<Rightarrow>
           DocumentQA_async_loop env d q (Some ?sid) (0 + 1) (backoff 0 (session_close ?sid w2)))"
    by (subst DocumentQA_async_loop.simps) (simp add: patience_def ClientSession_def)
  show ?thesis
  proof (cases "fst ?inner")
    case (Inr j)
    then have "DocumentQA_async_loop env d q None 0 w = (Inr j, session_close ?sid (snd ?inner))"
      using unfold by (simp split: prod.splits)
    then show ?thesis using t1 by simp
  next
    case (Inl e)
    let ?w3 = "backoff 0 (session_close ?sid (snd ?inner))"
    have eq: "DocumentQA_async_loop env d q None 0 w =
        DocumentQA_async_loop env d q (Some ?sid) (0 + 1) ?w3"
      using unfold Inl by (simp split: prod.splits)
    obtain t2 where t2: "trace (snd (DocumentQA_async_loop env d q (Some ?sid) (0 + 1) ?w3)) =
        trace ?w3 @ t2" "session_events t2 = []"
      using DocumentQA_session_loop_events by blast
    show ?thesis using eq t1 t2 by simp
  qed
qed

lemma Summarize_own_session_events:
  "\<exists>t. trace (snd (Summarize_async_loop env d None 0 w)) = trace w @ t \<and>
     session_events t = [SessionOpen (next_session w), SessionClose (next_session w)]"
proof -
  let ?sid = "next_session w"
  let ?w1 = "snd (ClientSession w)"
  let ?inner = "Summarize_async_loop env d (Some ?sid) 0 ?w1"
  obtain t1 where t1: "trace (snd ?inner) = trace ?w1 @ t1" "session_events t1 = []"
    using Summarize_session_loop_events by blast
  have unfold: "Summarize_async_loop env d None 0 w =
      (case ?inner of
         (Inr j, w2) \<Rightarrow> (Inr j, session_close ?sid w2)
       | (Inl e, w2) \<Rightarrow>
           Summarize_async_loop env d (Some ?sid) (0 + 1) (backoff 0 (session_close ?sid w2)))"
    by (subst Summarize_async_loop.simps) (simp add: patience_def ClientSession_def)
  show ?thesis
  proof (cases "fst ?inner")
    case (Inr j)
    then have "Summarize_async_loop env d None 0 w = (Inr j, session_close ?sid (snd ?inner))"
      using unfold by (simp split: prod.splits)
    then show ?thesis using t1 by simp
  next
    case (Inl e)
    let ?w3 = "backoff 0 (session_close ?sid (snd ?inner))"
    have eq: "Summarize_async_loop env d None 0 w =
        Summarize_async_loop env d (Some ?sid) (0 + 1) ?w3"
      using unfold Inl by (simp split: prod.splits)
    obtain t2 where t2: "trace (snd (Summarize_async_loop env d (Some ?sid) (0 + 1) ?w3)) =
        trace ?w3 @ t2" "session_events t2 = []"
      using Summarize_session_loop_events by blast
    show ?thesis using eq t1 t2 by simp
  qed
qed

lemma session_closed_append:
  "trace w' = trace w @ t \<Longrightarrow>
     session_closed w' sid = (session_closed w sid \<or> SessionClose sid \<in> set (session_events t))"
  by (auto simp: session_closed_def session_events_def)

section \<open>The registry and WebContent\<close>

lemma registry_keys:
  "map fst (CAPABILITIES env) =
     [''multi/summarize'', ''multi/document_qa'', ''multi/sql'', ''multi/search'',
      ''multi/structured'', ''multi/web_content'']"
  by (simp add: CAPABILITIES_def)

text \<open>
  Claim C9. Resolving a name that is not in the registry raises nothing: it prints the
  message with the list of valid URIs and returns a capability with no invoker bound.
  Every later call on it raises (\<open>TypeError\<close>: the bound value \<open>None\<close> is not callable)
  and every later \<open>run_async\<close> raises (\<open>AttributeError\<close>: \<open>None\<close> has no \<open>run_async\<close>);
  neither does anything else, and neither returns a value. These two exceptions are what
  the specification names \<open>UnboundCapabilityError\<close>.
\<close>

theorem unknown_capability_unbound:
  assumes "u \<notin> set (map fst (CAPABILITIES env))"
  shows "bound (fst (Capability env u w)) = None \<and>
         uri (fst (Capability env u w)) = u \<and>
         trace (snd (Capability env u w)) = trace w \<and>
         stdout (snd (Capability env u w)) =
           stdout w @
             [''Capability lookup failed for uri='' @ u @ ''.\<newline>Valid URIs are:'',
              ''  multi/summarize'', ''  multi/document_qa'', ''  multi/sql'',
              ''  multi/search'', ''  multi/structured'', ''  multi/web_content''] \<and>
         Capability_call env (fst (Capability env u w)) args w' =
           (Inl (TypeError ''NoneType object is not callable''), w') \<and>
         Capability_run_async env (fst (Capability env u w)) args session w' =
           (Inl (AttributeError ''NoneType object has no attribute run_async''), w')"
proof -
  have none: "map_of (CAPABILITIES env) u = None"
    using assms by (simp add: map_of_eq_None_iff)
  have c: "fst (Capability env u w) = \<lparr>uri = u, bound = None\<rparr>"
    using none by (simp add: Capability_def Capability_init_def)
  have out: "snd (Capability env u w) =
      fold (\<lambda>k. print (''  '' @ k)) (map fst (CAPABILITIES env))
        (print (''Capability lookup failed for uri='' @ u @ ''.\<newline>Valid URIs are:'') w)"
    using none by (simp add: Capability_def Capability_init_def)
  show ?thesis
    by (simp add: c out registry_keys print_def Capability_call_def Capability_run_async_def)
qed

theorem unknown_capability_unbound_witness:
  "''multi/translate'' \<notin> set (map fst (CAPABILITIES quiet_env)) \<and>
   bound (fst (Capability quiet_env ''multi/translate'' world0)) = None \<and>
   Capability_call quiet_env (fst (Capability quiet_env ''multi/translate'' world0))
       (SummarizeArgs ''doc'') world0 =
     (Inl (TypeError ''NoneType object is not callable''), world0) \<and>
   Capability_run_async quiet_env (fst (Capability quiet_env ''multi/translate'' world0))
       (SummarizeArgs ''doc'') None world0 =
     (Inl (AttributeError ''NoneType object has no attribute run_async''), world0)"
proof -
  have h: "''multi/translate'' \<notin> set (map fst (CAPABILITIES quiet_env))"
    by (simp add: registry_keys)
  show ?thesis
    using h unknown_capability_unbound [OF h, of world0 "SummarizeArgs ''doc''" world0 None]
    by blast
qed

lemma requests_sent_ClientSession [simp]:
  "requests_sent (snd (ClientSession w)) = requests_sent w"
  by (simp add: requests_sent_def)

lemma session_closed_ClientSession [simp]:
  "session_closed (snd (ClientSession w)) sid = session_closed w sid"
  by (simp add: session_closed_def)

lemma with_ClientSession_eq:
  "with_ClientSession body w =
     (fst (body (next_session w) (snd (ClientSession w))),
      session_close (next_session w) (snd (body (next_session w) (snd (ClientSession w)))))"
  by (simp add: with_ClientSession_def ClientSession_def split: prod.splits)

lemma WebContent_with_session_open:
  "\<not> session_closed w sid \<Longrightarrow>
     WebContent_with_session env page sid w =
       ((case net env (requests_sent w) (WebContent_request env page) of
           NetworkError \<Rightarrow> Inl TransportError
         | Response b \<Rightarrow>
             (case content b of None \<Rightarrow> Inl DecodeError | Some html \<Rightarrow> document_summary env html)),
        emit (Post (Some sid) (WebContent_request env page)) w)"
  by (simp add: WebContent_with_session_def session_post_def deliver_def decode_utf8_def
      split: reply.splits option.splits)

lemma WebContent_with_session_trace:
  "\<exists>e. is_attempt e \<and> trace (snd (WebContent_with_session env page sid w)) = trace w @ [e]"
  by (auto simp: WebContent_with_session_def session_post_def deliver_def decode_utf8_def
      split: reply.splits option.splits sum.splits)

text \<open>
  Claim C10. \<open>WebContent\<close> posts the URL to the rendering endpoint, with the token in
  the query string and no \<open>api-key\<close> header, and reads the body as text, whatever JSON it
  may hold. The synchronous path returns \<open>Document(html).content()\<close>, the asynchronous
  path \<open>Document(html).summary()\<close>. Neither retries: one attempt and no sleep, and a
  failure of the transport is raised as it is.
\<close>

theorem web_content_paths:
  "req_url (WebContent_request env page) =
     ''https://chrome.browserless.io/content?token='' @ browserless_api_key env \<and>
   map_of (req_headers (WebContent_request env page)) ''api-key'' = None \<and>
   req_json (WebContent_request env page) = JObj [(''url'', JStr page)] \<and>
   (net env (requests_sent w) (WebContent_request env page) = Response b \<and>
    content b = Some html \<longrightarrow>
      WebContent_call env page w =
        (document_content env html, emit (Post None (WebContent_request env page)) w) \<and>
      (\<not> session_closed w sid \<longrightarrow>
         WebContent_run_async env page (Some sid) w =
           (document_summary env html, emit (Post (Some sid) (WebContent_request env page)) w)) \<and>
      (\<not> session_closed w (next_session w) \<longrightarrow>
         fst (WebContent_run_async env page None w) = document_summary env html \<and>
         new_events w (snd (WebContent_run_async env page None w)) =
           [SessionOpen (next_session w),
            Post (Some (next_session w)) (WebContent_request env page),
            SessionClose (next_session w)])) \<and>
   (net env (requests_sent w) (WebContent_request env page) = NetworkError \<longrightarrow>
      WebContent_call env page w =
        (Inl TransportError, emit (Post None (WebContent_request env page)) w) \<and>
      (\<not> session_closed w sid \<longrightarrow>
         WebContent_run_async env page (Some sid) w =
           (Inl TransportError, emit (Post (Some sid) (WebContent_request env page)) w))) \<and>
   attempts (new_events w (snd (WebContent_call env page w))) = 1 \<and>
   sleeps (new_events w (snd (WebContent_call env page w))) = [] \<and>
   attempts (new_events w (snd (WebContent_run_async env page session w))) = 1 \<and>
   sleeps (new_events w (snd (WebContent_run_async env page session w))) = []"
proof -
  let ?R = "WebContent_request env page"
  have req: "req_url ?R = ''https://chrome.browserless.io/content?token='' @ browserless_api_key env \<and>
      map_of (req_headers ?R) ''api-key'' = None \<and> req_json ?R = JObj [(''url'', JStr page)]"
    by (simp add: WebContent_request_def)
  have ok: "net env (requests_sent w) ?R = Response b \<and> content b = Some html \<longrightarrow>
      WebContent_call env page w = (document_content env html, emit (Post None ?R) w) \<and>
      (\<not> session_closed w sid \<longrightarrow>
         WebContent_run_async env page (Some sid) w =
           (document_summary env html, emit (Post (Some sid) ?R) w)) \<and>
      (\<not> session_closed w (next_session w) \<longrightarrow>
         fst (WebContent_run_async env page None w) = document_summary env html \<and>
         new_events w (snd (WebContent_run_async env page None w)) =
           [SessionOpen (next_session w), Post (Some (next_session w)) ?R,
            SessionClose (next_session w)])"
    by (simp add: WebContent_call_def WebContent_run_async_def requests_post_def deliver_def
        decode_utf8_def WebContent_with_session_open with_ClientSession_eq new_events_def)
  have bad: "net env (requests_sent w) ?R = NetworkError \<longrightarrow>
      WebContent_call env page w = (Inl TransportError, emit (Post None ?R) w) \<and>
      (\<not> session_closed w sid \<longrightarrow>
         WebContent_run_async env page (Some sid) w =
           (Inl TransportError, emit (Post (Some sid) ?R) w))"
    by (simp add: WebContent_call_def WebContent_run_async_def requests_post_def deliver_def
        WebContent_with_session_open)
  have sync: "attempts (new_events w (snd (WebContent_call env page w))) = 1 \<and>
      sleeps (new_events w (snd (WebContent_call env page w))) = []"
    by (simp add: WebContent_call_def requests_post_def deliver_def new_events_def attempts_def
        sleeps_def split: reply.splits sum.splits)
  have async: "attempts (new_events w (snd (WebContent_run_async env page session w))) = 1 \<and>
      sleeps (new_events w (snd (WebContent_run_async env page session w))) = []"
  proof (cases session)
    case None
    obtain e where e: "is_attempt e"
      "trace (snd (WebContent_with_session env page (next_session w) (snd (ClientSession w)))) =
         trace (snd (ClientSession w)) @ [e]"
      using WebContent_with_session_trace by blast
    show ?thesis
      using e None
      by (cases e) (simp_all add: WebContent_run_async_def with_ClientSession_eq new_events_def
          attempts_def sleeps_def)
  next
    case (Some sid)
    obtain e where e: "is_attempt e"
      "trace (snd (WebContent_with_session env page sid w)) = trace w @ [e]"
      using WebContent_with_session_trace by blast
    show ?thesis
      using e Some
      by (cases e) (simp_all add: WebContent_run_async_def new_events_def attempts_def sleeps_def)
  qed
  show ?thesis using req ok bad sync async by blast
qed

theorem web_content_paths_witness:
  "net (recovering_env 0) (requests_sent world0) (WebContent_request (recovering_env 0) ''http://a'') =
     Response \<lparr>json_body = Some (JStr ''ok''), content = Some ''<p>ok</p>''\<rparr> \<and>
   \<not> session_closed world0 0 \<and>
   fst (WebContent_call (recovering_env 0) ''http://a'' world0) = Inr ''content of <p>ok</p>'' \<and>
   fst (WebContent_run_async (recovering_env 0) ''http://a'' (Some 0) world0) =
     Inr ''summary of <p>ok</p>'' \<and>
   fst (WebContent_run_async (recovering_env 0) ''http://a'' None world0) =
     Inr ''summary of <p>ok</p>'' \<and>
   net quiet_env (requests_sent world0) (WebContent_request quiet_env ''http://a'') = NetworkError \<and>
   fst (WebContent_call quiet_env ''http://a'' world0) = Inl TransportError"
proof -
  have n: "net (recovering_env 0) (requests_sent world0)
             (WebContent_request (recovering_env 0) ''http://a'') =
           Response \<lparr>json_body = Some (JStr ''ok''), content = Some ''<p>ok</p>''\<rparr>"
    by (simp add: recovering_env_def)
  have c: "content \<lparr>json_body = Some (JStr ''ok''), content = Some ''<p>ok</p>''\<rparr> = Some ''<p>ok</p>''"
    by simp
  have s: "\<not> session_closed world0 0" "next_session world0 = 0"
    by (simp_all add: session_closed_def world0_def)
  have q: "net quiet_env (requests_sent world0) (WebContent_request quiet_env ''http://a'') =
             NetworkError"
    by (simp add: quiet_env_def)
  have dc: "document_content (recovering_env 0) ''<p>ok</p>'' = Inr ''content of <p>ok</p>''"
    "document_summary (recovering_env 0) ''<p>ok</p>'' = Inr ''summary of <p>ok</p>''"
    by (simp_all add: recovering_env_def)
  note t1 = web_content_paths [of "recovering_env 0" "''http://a''" world0
      "\<lparr>json_body = Some (JStr ''ok''), content = Some ''<p>ok</p>''\<rparr>" "''<p>ok</p>''" 0 None]
  note t2 = web_content_paths [of quiet_env "''http://a''" world0 _ _ 0 None]
  have a: "fst (WebContent_call (recovering_env 0) ''http://a'' world0) = Inr ''content of <p>ok</p>''"
    using t1 n c dc by simp
  have b: "fst (WebContent_run_async (recovering_env 0) ''http://a'' (Some 0) world0) =
     Inr ''summary of <p>ok</p>''"
    using t1 n c s dc by simp
  have d: "fst (WebContent_run_async (recovering_env 0) ''http://a'' None world0) =
     Inr ''summary of <p>ok</p>''"
    using t1 n c s dc by simp
  have e: "fst (WebContent_call quiet_env ''http://a'' world0) = Inl TransportError"
    using t2 q by simp
  show ?thesis using n s(1) q a b d e by blast
qed

section \<open>The two entry points of a capability\<close>

lemma requests_of_append [simp]: "requests_of (s @ t) = requests_of s @ requests_of t"
  by (simp add: requests_of_def)

lemma requests_of_simps [simp]:
  "requests_of [] = []"
  "requests_of (Post s r # t) = r # requests_of t"
  "requests_of (PostRefused sid r # t) = r # requests_of t"
  "requests_of (Sleep d # t) = requests_of t"
  "requests_of (SessionOpen sid # t) = requests_of t"
  "requests_of (SessionClose sid # t) = requests_of t"
  by (simp_all add: requests_of_def)















lemma sleeps_simps [simp]:
  "sleeps [] = []"
  "sleeps (Post s r # t) = sleeps t"
  "sleeps (PostRefused sid r # t) = sleeps t"
  "sleeps (Sleep d # t) = d # sleeps t"
  "sleeps (SessionOpen sid # t) = sleeps t"
  "sleeps (SessionClose sid # t) = sleeps t"
  by (simp_all add: sleeps_def)

lemma session_post_trace:
  "\<exists>e. request_of e = [r] \<and> sleeps [e] = [] \<and> trace (snd (session_post env sid r w)) = trace w @ [e]"
  by (auto simp: session_post_def deliver_def split: reply.splits)



lemma one_request_session:
  "requests_of (new_events w (snd (case session_post env sid r w of
       (Inl e, w1) \<Rightarrow> (Inl e, w1) | (Inr resp, w1) \<Rightarrow> (f resp, w1)))) = [r] \<and>
   sleeps (new_events w (snd (case session_post env sid r w of
       (Inl e, w1) \<Rightarrow> (Inl e, w1) | (Inr resp, w1) \<Rightarrow> (f resp, w1)))) = []"
proof -
  obtain e where e: "request_of e = [r]" "sleeps [e] = []"
      "trace (snd (session_post env sid r w)) = trace w @ [e]"
    using session_post_trace by blast
  then show ?thesis
    by (cases e) (auto simp: new_events_def split: prod.splits sum.splits)
qed






text \<open>
  With a session supplied by the caller, \<open>Sql.run_async\<close> sends the query alone, without
  \<open>sql_schema\<close> and \<open>sql_type\<close>, unlike its two sibling paths.
\<close>

lemma Sql_run_async_session_sends_query_only:
  "requests_of (new_events w (snd (Sql_run_async self env q sc v (Some sid) w))) =
     [\<lparr>req_url = url self, req_headers = headers self, req_json = JObj [(''query'', JStr q)]\<rparr>]"
  by (simp add: Sql_run_async_def one_request_session)


text \<open>
  Without a session, \<open>DocumentQA.run_async\<close> awaits itself inside the \<open>try\<close>; when the
  inner call gives up after 8 attempts, the bare \<open>except:\<close> of the outer loop catches that
  exception and the outer loop goes on with the session it has just closed: 7 more calls
  of \<open>post\<close>, each refused, and as many sleeps again.
\<close>

lemma own_session_retries_again:
  "attempts (new_events world0 (snd (DocumentQA_run_async quiet_env ''doc'' ''why'' None world0))) = 15 \<and>
   sum_list (sleeps (new_events world0
     (snd (DocumentQA_run_async quiet_env ''doc'' ''why'' None world0)))) = 510"
  by (simp add: DocumentQA_run_async_def DocumentQA_async_loop.simps patience_def
      DocumentQA_async_try_def ClientSession_def session_post_def session_closed_def
      session_close_def deliver_def quiet_env_def world0_def requests_sent_def emit_def
      backoff_def time_sleep_def print_def new_events_def attempts_def)

text \<open>
  \<open>Structured\<close> hands the \<open>output\<close> field of the decoded response to \<open>parse_obj\<close> when
  the output type is a pydantic model class and to \<open>dacite.from_dict\<close> otherwise.
\<close>

lemma Structured_coerces_output:
  "net env (requests_sent w)
       \<lparr>req_url = url self, req_headers = headers self, req_json = p\<rparr> = Response b \<Longrightarrow>
   Structured_payload i out ins x = Inr p \<Longrightarrow>
   json_body b = Some (JObj kvs) \<Longrightarrow> map_of kvs ''output'' = Some result \<Longrightarrow>
   fst (Structured_call self env i out ins x w) =
     (case out of ModelClass n fs \<Rightarrow> parse_obj env out result | _ \<Rightarrow> from_dict env out result)"
  by (simp add: Structured_call_def requests_post_def deliver_def output_of_def resp_json_def
      getitem_def coerce_output_def)

section \<open>Who closes the session\<close>

lemma new_events_same [simp]: "new_events w w = []"
  by (simp add: new_events_def)

lemma session_post_quiet:
  "\<exists>e. session_events [e] = [] \<and> trace (snd (session_post env sid r w)) = trace w @ [e]"
  by (auto simp: session_post_def deliver_def split: reply.splits)

lemma no_session_event_with_session:
  "session_events (new_events w (snd (case session_post env sid r w of
       (Inl e, w1) \<Rightarrow> (Inl e, w1) | (Inr resp, w1) \<Rightarrow> (f resp, w1)))) = []"
proof -
  obtain e where e: "session_events [e] = []"
      "trace (snd (session_post env sid r w)) = trace w @ [e]"
    using session_post_quiet by blast
  then show ?thesis
    by (auto simp: new_events_def split: prod.splits sum.splits)
qed

lemma own_session_opened_and_closed:
  "session_events (new_events w (snd (with_ClientSession (\<lambda>sid w1. case session_post env sid r w1 of
       (Inl e, w2) \<Rightarrow> (Inl e, w2) | (Inr resp, w2) \<Rightarrow> (f resp, w2)) w))) =
     [SessionOpen (next_session w), SessionClose (next_session w)]"
proof -
  obtain e where e: "session_events [e] = []"
      "trace (snd (session_post env (next_session w) r (snd (ClientSession w)))) =
         trace (snd (ClientSession w)) @ [e]"
    using session_post_quiet by blast
  then show ?thesis
    by (auto simp: with_ClientSession_eq new_events_def split: prod.splits sum.splits)
qed

lemma WebContent_with_session_quiet:
  "\<exists>e. session_events [e] = [] \<and>
     trace (snd (WebContent_with_session env page sid w)) = trace w @ [e]"
  by (auto simp: WebContent_with_session_def session_post_def deliver_def decode_utf8_def
      split: reply.splits option.splits sum.splits)

lemma WebContent_session_events:
  "session_events (new_events w (snd (WebContent_run_async env page (Some sid) w))) = [] \<and>
   session_events (new_events w (snd (WebContent_run_async env page None w))) =
     [SessionOpen (next_session w), SessionClose (next_session w)]"
proof -
  obtain e where e: "session_events [e] = []"
      "trace (snd (WebContent_with_session env page sid w)) = trace w @ [e]"
    using WebContent_with_session_quiet by blast
  obtain e' where e': "session_events [e'] = []"
      "trace (snd (WebContent_with_session env page (next_session w) (snd (ClientSession w)))) =
         trace (snd (ClientSession w)) @ [e']"
    using WebContent_with_session_quiet by blast
  show ?thesis
    using e e'
    by (cases e; cases e') (simp_all add: WebContent_run_async_def with_ClientSession_eq new_events_def)
qed

text \<open>
  Claim C8. \<open>run_async\<close> with a session supplied by the caller opens and closes no
  session: the supplied session is closed afterwards only if it was closed before.
  \<open>run_async\<close> without a session opens exactly one session of its own and closes it,
  whatever the outcome (a result, an exception, or the exception after the retries), and
  touches no other session. This holds for the two retrying capabilities and for \<open>Sql\<close>,
  \<open>Search\<close>, \<open>Structured\<close> and \<open>WebContent\<close>; \<open>Structured\<close> opens no session at all when
  building the payload raises.
\<close>

theorem session_ownership:
  "session_events (new_events w (snd (DocumentQA_run_async env d q (Some sid) w))) = [] \<and>
   session_closed (snd (DocumentQA_run_async env d q (Some sid) w)) sid = session_closed w sid \<and>
   session_events (new_events w (snd (DocumentQA_run_async env d q None w))) =
     [SessionOpen (next_session w), SessionClose (next_session w)] \<and>
   session_closed (snd (DocumentQA_run_async env d q None w)) (next_session w) \<and>
   session_events (new_events w (snd (Summarize_run_async env d (Some sid) w))) = [] \<and>
   session_closed (snd (Summarize_run_async env d (Some sid) w)) sid = session_closed w sid \<and>
   session_events (new_events w (snd (Summarize_run_async env d None w))) =
     [SessionOpen (next_session w), SessionClose (next_session w)] \<and>
   session_closed (snd (Summarize_run_async env d None w)) (next_session w) \<and>
   session_events (new_events w (snd (Sql_run_async self env q sc v (Some sid) w))) = [] \<and>
   session_events (new_events w (snd (Sql_run_async self env q sc v None w))) =
     [SessionOpen (next_session w), SessionClose (next_session w)] \<and>
   session_events (new_events w (snd (Search_run_async self env q (Some sid) w))) = [] \<and>
   session_events (new_events w (snd (Search_run_async self env q None w))) =
     [SessionOpen (next_session w), SessionClose (next_session w)] \<and>
   session_events (new_events w (snd (Structured_run_async self env i out ins x (Some sid) w))) = [] \<and>
   session_events (new_events w (snd (Structured_run_async self env i out ins x None w))) =
     (if isl (Structured_payload_async i out ins x) then []
      else [SessionOpen (next_session w), SessionClose (next_session w)]) \<and>
   session_events (new_events w (snd (WebContent_run_async env page (Some sid) w))) = [] \<and>
   session_events (new_events w (snd (WebContent_run_async env page None w))) =
     [SessionOpen (next_session w), SessionClose (next_session w)]"
proof -
  let ?p = "print (running_msg ''DocumentQA'' d) w"
  obtain t1 where t1: "trace (snd (DocumentQA_run_async env d q (Some sid) w)) = trace w @ t1"
      "session_events t1 = []"
    using DocumentQA_session_loop_events [of env d q sid 0 ?p]
    by (auto simp: DocumentQA_run_async_def)
  obtain t2 where t2: "trace (snd (DocumentQA_run_async env d q None w)) = trace w @ t2"
      "session_events t2 = [SessionOpen (next_session w), SessionClose (next_session w)]"
    using DocumentQA_own_session_events [of env d q ?p]
    by (auto simp: DocumentQA_run_async_def)
  obtain t3 where t3: "trace (snd (Summarize_run_async env d (Some sid) w)) = trace w @ t3"
      "session_events t3 = []"
    using Summarize_session_loop_events [of env d sid 0 w]
    by (auto simp: Summarize_run_async_def)
  obtain t4 where t4: "trace (snd (Summarize_run_async env d None w)) = trace w @ t4"
      "session_events t4 = [SessionOpen (next_session w), SessionClose (next_session w)]"
    using Summarize_own_session_events [of env d w]
    by (auto simp: Summarize_run_async_def)
  have loops: "session_events (new_events w (snd (DocumentQA_run_async env d q (Some sid) w))) = [] \<and>
   session_closed (snd (DocumentQA_run_async env d q (Some sid) w)) sid = session_closed w sid \<and>
   session_events (new_events w (snd (DocumentQA_run_async env d q None w))) =
     [SessionOpen (next_session w), SessionClose (next_session w)] \<and>
   session_closed (snd (DocumentQA_run_async env d q None w)) (next_session w) \<and>
   session_events (new_events w (snd (Summarize_run_async env d (Some sid) w))) = [] \<and>
   session_closed (snd (Summarize_run_async env d (Some sid) w)) sid = session_closed w sid \<and>
   session_events (new_events w (snd (Summarize_run_async env d None w))) =
     [SessionOpen (next_session w), SessionClose (next_session w)] \<and>
   session_closed (snd (Summarize_run_async env d None w)) (next_session w)"
    using session_closed_append [OF t1(1), of sid] session_closed_append [OF t2(1), of "next_session w"]
      session_closed_append [OF t3(1), of sid] session_closed_append [OF t4(1), of "next_session w"]
      new_events_append [OF t1(1)] new_events_append [OF t2(1)]
      new_events_append [OF t3(1)] new_events_append [OF t4(1)]
    by (simp add: t1(2) t2(2) t3(2) t4(2))
  have sql: "session_events (new_events w (snd (Sql_run_async self env q sc v (Some sid) w))) = [] \<and>
   session_events (new_events w (snd (Sql_run_async self env q sc v None w))) =
     [SessionOpen (next_session w), SessionClose (next_session w)]"
    by (simp add: Sql_run_async_def no_session_event_with_session own_session_opened_and_closed)
  have search: "session_events (new_events w (snd (Search_run_async self env q (Some sid) w))) = [] \<and>
   session_events (new_events w (snd (Search_run_async self env q None w))) =
     [SessionOpen (next_session w), SessionClose (next_session w)]"
    by (simp add: Search_run_async_def no_session_event_with_session own_session_opened_and_closed)
  have structured:
    "session_events (new_events w (snd (Structured_run_async self env i out ins x (Some sid) w))) = [] \<and>
     session_events (new_events w (snd (Structured_run_async self env i out ins x None w))) =
       (if isl (Structured_payload_async i out ins x) then []
        else [SessionOpen (next_session w), SessionClose (next_session w)])"
    by (cases "Structured_payload_async i out ins x")
      (simp_all add: Structured_run_async_def no_session_event_with_session
        own_session_opened_and_closed new_events_same)
  show ?thesis
    using loops sql search structured WebContent_session_events [of w env page sid] by blast
qed

theorem session_ownership_witness:
  "session_events (new_events world0
     (snd (DocumentQA_run_async quiet_env ''doc'' ''why'' (Some 0) world0))) = [] \<and>
   \<not> session_closed (snd (DocumentQA_run_async quiet_env ''doc'' ''why'' (Some 0) world0)) 0 \<and>
   session_events (new_events world0
     (snd (DocumentQA_run_async quiet_env ''doc'' ''why'' None world0))) =
     [SessionOpen 0, SessionClose 0] \<and>
   session_closed (snd (Summarize_run_async (recovering_env 1) ''doc'' None world0)) 0 \<and>
   session_events (new_events world0
     (snd (Search_run_async (Search_default quiet_env) quiet_env ''why'' None world0))) =
     [SessionOpen 0, SessionClose 0]"
  using session_ownership [where w = world0 and env = quiet_env and d = "''doc''"
      and q = "''why''" and sid = 0 and self = "Search_default quiet_env"]
    session_ownership [where w = world0 and env = "recovering_env 1" and d = "''doc''"
      and q = "''why''" and sid = 0]
  by (simp add: world0_def session_closed_def)

end
